theory Spec2Isabelle
  imports
    Main
    "HOL-Library.AList"
    "HOL-Library.Char_ord"
    "HOL-Library.List_Lexorder"
    "HOL-Library.Multiset"
begin

section \<open>Shared vocabulary\<close>

text \<open>
  Exceptions are values. The constructors are the exception classes the source raises;
  a plain \<^verbatim>\<open>Exception\<close> carries the fixed part of its message. \<open>UnknownInput\<close> belongs
  to the binding resolver, which is described by the specification only, and
  \<open>RemoteError\<close> and \<open>UserError\<close> stand for whatever the control-plane client and a
  user's function may raise.
\<close>

datatype error =
    FlyteAssertion
  | FlyteSystemException
  | FlyteEntityAlreadyExistsException
  | Exception string
  | KeyError "string option"
  | IndexError
  | TypeError
  | AttributeError
  | RecursionError
  | UnknownInput string
  | RemoteError string
  | UserError string

text \<open>
  A Python dict keeps its keys in insertion order; assigning to a key that is present
  replaces the value where it stands. \<open>AList.update\<close> does exactly that.
\<close>

definition dict :: "('k \<times> 'v) list \<Rightarrow> ('k \<times> 'v) list" where
  "dict kvs = foldl (\<lambda>d kv. AList.update (fst kv) (snd kv) d) [] kvs"

section \<open>\<^verbatim>\<open>flytekit/annotated/stuff.py\<close>: the interface builder\<close>

text \<open>
  What a function annotation may hold: one of the host types of
  \<^verbatim>\<open>SIMPLE_TYPE_LOOKUP_TABLE\<close>, some other hashable object, or a tuple of annotations.
\<close>

datatype py_annot =
    PyInt | PyFloat | PyBool | PyDatetime | PyTimedelta | PyStr | PyDict
  | PyOther string
  | PyTuple "py_annot list"

datatype primitive = Integer | Float | Boolean | Datetime | Timedelta | String | Generic

text \<open>
  The values of the table: \<^verbatim>\<open>X.to_flyte_literal_type()\<close> for every entry but \<^verbatim>\<open>bool\<close>,
  whose entry is the class \<^verbatim>\<open>_primitives.Boolean\<close> itself.
\<close>

datatype literal_type = FlyteLiteralType primitive | SdkTypeClass primitive

fun SIMPLE_TYPE_LOOKUP_TABLE :: "py_annot \<Rightarrow> literal_type option" where
  "SIMPLE_TYPE_LOOKUP_TABLE PyInt = Some (FlyteLiteralType Integer)"
| "SIMPLE_TYPE_LOOKUP_TABLE PyFloat = Some (FlyteLiteralType Float)"
| "SIMPLE_TYPE_LOOKUP_TABLE PyBool = Some (SdkTypeClass Boolean)"
| "SIMPLE_TYPE_LOOKUP_TABLE PyDatetime = Some (FlyteLiteralType Datetime)"
| "SIMPLE_TYPE_LOOKUP_TABLE PyTimedelta = Some (FlyteLiteralType Timedelta)"
| "SIMPLE_TYPE_LOOKUP_TABLE PyStr = Some (FlyteLiteralType String)"
| "SIMPLE_TYPE_LOOKUP_TABLE PyDict = Some (FlyteLiteralType Generic)"
| "SIMPLE_TYPE_LOOKUP_TABLE (PyOther v) = None"
| "SIMPLE_TYPE_LOOKUP_TABLE (PyTuple vs) = None"

record variable =
  var_type :: literal_type
  description :: string

record typed_interface =
  inputs :: "(string \<times> variable) list"
  outputs :: "(string \<times> variable) list"

text \<open>\<^verbatim>\<open>get_variable_map\<close>: the loop over \<^verbatim>\<open>variable_map.items()\<close>, \<open>res\<close> the dict built so far.\<close>

fun get_variable_map_loop ::
  "(string \<times> variable) list \<Rightarrow> (string \<times> py_annot) list \<Rightarrow> error + (string \<times> variable) list" where
  "get_variable_map_loop res [] = Inr res"
| "get_variable_map_loop res ((k, v) # kvs) =
     (case SIMPLE_TYPE_LOOKUP_TABLE v of
        None \<Rightarrow> Inl (Exception ''Python type not yet supported'')
      | Some flyte_literal_type \<Rightarrow>
          get_variable_map_loop
            (AList.update k \<lparr>var_type = flyte_literal_type, description = k\<rparr> res) kvs)"

definition get_variable_map ::
  "(string \<times> py_annot) list \<Rightarrow> error + (string \<times> variable) list" where
  "get_variable_map variable_map = get_variable_map_loop [] variable_map"

definition get_variable_map_from_lists ::
  "string list \<Rightarrow> py_annot list \<Rightarrow> error + (string \<times> variable) list" where
  "get_variable_map_from_lists variable_names python_types =
     get_variable_map (dict (zip variable_names python_types))"

text \<open>
  Modelled from the spec: the text of a \<^verbatim>\<open>Variable\<close> (module
  \<^verbatim>\<open>flytekit.models.interface\<close>), which
  \<^verbatim>\<open>print(f"Inputs map is {inputs_map}")\<close> asks of every variable in the dict. The
  specification does not mention it. A variable is formatted by writing out its wire
  form, type included; the \<^verbatim>\<open>bool\<close> entry of the table is a class rather than a literal
  type and cannot be written out: the first variable of that type ends the call with
  \<^verbatim>\<open>TypeError\<close>.
\<close>

fun print_variable_map :: "(string \<times> variable) list \<Rightarrow> error option" where
  "print_variable_map [] = None"
| "print_variable_map ((k, v) # kvs) =
     (case var_type v of
        SdkTypeClass c \<Rightarrow> Some TypeError
      | FlyteLiteralType t \<Rightarrow> print_variable_map kvs)"

text \<open>
  \<^verbatim>\<open>get_interface_from_task_info\<close>. The first test guards only the case of a non-empty
  name list; with no names and no \<^verbatim>\<open>return\<close> key the subscript
  \<^verbatim>\<open>task_annotations['return']\<close> raises \<^verbatim>\<open>KeyError\<close>. The two maps are printed, inputs
  first, before the interface is made.
  \<^verbatim>\<open>interface.TypedInterface.promote_from_model\<close> only rewraps the model.
\<close>

definition get_interface_from_task_info ::
  "(string \<times> py_annot) list \<Rightarrow> string list \<Rightarrow> error + typed_interface" where
  "get_interface_from_task_info task_annotations output_names =
     (if map_of task_annotations ''return'' = None \<and> length output_names \<noteq> 0
      then Inl (Exception ''1fkdsa39mlsda'')
      else
        (case map_of task_annotations ''return'' of
           None \<Rightarrow> Inl (KeyError (Some ''return''))
         | Some r \<Rightarrow>
             (let return_types = (case r of PyTuple ts \<Rightarrow> ts | _ \<Rightarrow> [r]) in
              if length output_names \<noteq> length return_types
              then Inl (Exception ''Output length mismatch'')
              else
                (case get_variable_map
                        (filter (\<lambda>kv. fst kv \<noteq> ''return'') task_annotations) of
                   Inl e \<Rightarrow> Inl e
                 | Inr inputs_map \<Rightarrow>
                     (case get_variable_map_from_lists output_names return_types of
                        Inl e \<Rightarrow> Inl e
                      | Inr outputs_map \<Rightarrow>
                          (case print_variable_map inputs_map of
                             Some e \<Rightarrow> Inl e
                           | None \<Rightarrow>
                               (case print_variable_map outputs_map of
                                  Some e \<Rightarrow> Inl e
                                | None \<Rightarrow>
                                    Inr \<lparr>inputs = inputs_map, outputs = outputs_map\<rparr>)))))))"

section \<open>Objects, values and the process state\<close>

text \<open>
  Graph nodes are objects: they are shared by reference and, when a template is promoted,
  mutated after other objects already point at them. They live in a store, and a reference
  is an address. Every reference of a running program points at an object, so the store
  is a total function; \<open>next_addr\<close> is the first address not handed out yet.
\<close>

type_synonym addr = nat

datatype resource_type = TASK | WORKFLOW

record identifier_model =
  resource_type :: resource_type
  project :: string
  domain :: string
  ident_name :: string
  version :: string

text \<open>
  \<^verbatim>\<open>promise.NodeOutput\<close>, the handle for one named output of one node. It is what
  \<^verbatim>\<open>OutputParameterMapper.__getitem__\<close> hands out.
\<close>

datatype node_output = NodeOutput (sdk_node: addr) (sdk_type: literal_type) (output_var: string)

text \<open>
  The Python values that travel through the calls modelled here: literals, output
  handles, tuples, and the \<^verbatim>\<open>WorkflowOutputs\<close> object a workflow body returns.
\<close>

datatype py_value =
    PyNone
  | IntV int
  | StrV string
  | BoolV bool
  | NodeOutputV node_output
  | TupleV "py_value list"
  | WorkflowOutputsV "py_value list"

text \<open>
  A binding holds a literal, a live output handle (a node invoked in this process), or an
  output reference by node id, as the wire form has it; ids are texts there.
\<close>

datatype binding_data =
    Scalar py_value
  | Promise node_output
  | OutputReference string string

record binding =
  var :: string
  binding :: binding_data

datatype retry_strategy = RetryStrategy int

datatype runtime_type = FLYTE_SDK

record runtime_metadata =
  runtime_kind :: runtime_type
  runtime_version :: string
  flavor :: string

record task_metadata =
  discoverable :: bool
  runtime :: runtime_metadata
  timeout :: int
  retries :: retry_strategy
  interruptible :: "bool option"
  discovery_version :: string
  deprecated_error_message :: string

record node_metadata =
  node_name :: string
  node_timeout :: int
  node_retries :: retry_strategy
  node_interruptible :: "bool option"

datatype workflow_metadata = WorkflowMetadata
datatype workflow_metadata_defaults = WorkflowMetadataDefaults

text \<open>The arguments of the \<^verbatim>\<open>task\<close> decorator.\<close>

record task_options =
  opt_outputs :: "string list option"
  opt_cache_version :: string
  opt_retries :: int
  opt_interruptible :: "bool option"
  opt_deprecated :: string
  opt_storage_request :: "string option"
  opt_cpu_request :: "string option"
  opt_gpu_request :: "string option"
  opt_memory_request :: "string option"
  opt_storage_limit :: "string option"
  opt_cpu_limit :: "string option"
  opt_gpu_limit :: "string option"
  opt_memory_limit :: "string option"
  opt_cache :: bool
  opt_timeout :: "int option"
  opt_environment :: "(string \<times> string) list option"

text \<open>
  A user's task function, as the decorator sees it: its \<^verbatim>\<open>__annotations__\<close> and what a
  call with positional and keyword arguments gives.
\<close>

record task_fn =
  annotations :: "(string \<times> py_annot) list"
  call :: "py_value list \<Rightarrow> (string \<times> py_value) list \<Rightarrow> error + py_value"

text \<open>
  \<^verbatim>\<open>PythonTask\<close>. \<open>task_outputs\<close> is \<^verbatim>\<open>self._outputs\<close>, \<open>task_id\<close> the attribute
  \<^verbatim>\<open>id\<close> the decorator sets afterwards; \<open>info\<close> keeps the decorator's arguments,
  which is what the hash \<^verbatim>\<open>task_obj\<close> saves.
\<close>

record python_task =
  task_function :: "py_value list \<Rightarrow> (string \<times> py_value) list \<Rightarrow> error + py_value"
  interface :: typed_interface
  metadata :: task_metadata
  info :: task_options
  task_outputs :: "string list option"
  task_id :: "identifier_model option"

text \<open>
  \<^verbatim>\<open>SdkWorkflow\<close>, which is a \<^verbatim>\<open>WorkflowTemplate\<close> whose nodes are live nodes.
\<close>

record sdk_workflow =
  wf_id :: identifier_model
  wf_metadata :: workflow_metadata
  wf_metadata_defaults :: workflow_metadata_defaults
  wf_interface :: typed_interface
  wf_nodes :: "addr list"
  wf_outputs :: "binding list"

datatype executable =
    PythonTaskExe python_task
  | SdkWorkflowExe sdk_workflow
  | OtherExe string

text \<open>
  The attribute \<^verbatim>\<open>entity_type_text\<close>: an \<^verbatim>\<open>SdkWorkflow\<close> answers \<^verbatim>\<open>"Workflow"\<close>, another
  registerable entity answers its own text, and a \<^verbatim>\<open>PythonTask\<close> has no such attribute.
\<close>

fun entity_type_text :: "executable \<Rightarrow> string option" where
  "entity_type_text (PythonTaskExe t) = None"
| "entity_type_text (SdkWorkflowExe w) = Some ''Workflow''"
| "entity_type_text (OtherExe txt) = Some txt"

text \<open>
  The three kinds of target of a node: a task, referred to by its identifier; a
  sub-workflow or a launch plan; a branch, of which nothing but a description is kept.
\<close>

record task_node =
  reference_id :: "identifier_model option"

record workflow_node =
  launchplan_ref :: "identifier_model option"
  sub_workflow_ref :: "identifier_model option"

datatype branch_node = BranchNode string

text \<open>
  \<^verbatim>\<open>SdkNode\<close>: id, metadata, bindings, the upstream nodes (references), the target and
  the executable behind it.
\<close>

record sdk_node =
  node_id :: "string option"
  node_metadata :: node_metadata
  bindings :: "binding list"
  upstream_nodes :: "addr list"
  task_node :: "task_node option"
  workflow_node :: "workflow_node option"
  branch_node :: "branch_node option"
  executable_sdk_object :: "executable option"

record state =
  heap :: "addr \<Rightarrow> sdk_node"
  next_addr :: addr
  CONFIGURATION_SINGLETON_x :: int

definition alloc :: "sdk_node \<Rightarrow> state \<Rightarrow> addr \<times> state" where
  "alloc n s =
     (next_addr s, s\<lparr>heap := (heap s)(next_addr s := n), next_addr := Suc (next_addr s)\<rparr>)"

section \<open>Collaborators outside the source files at hand\<close>

text \<open>
  Modelled from the spec: \<^verbatim>\<open>TypedInterface.create_bindings_for_inputs\<close> (module
  \<^verbatim>\<open>flytekit.common.interface\<close>), the binding resolver of section 4.2. Every keyword
  must name a declared input, else \<open>UnknownInput\<close>; an output handle becomes a binding
  that points at that node's named output and its node joins the upstream set; any other
  value becomes a literal binding. The bindings come back in the order of the keywords:
  the sorting is done by the callers, in the source.
\<close>

fun create_bindings_for_inputs ::
  "typed_interface \<Rightarrow> (string \<times> py_value) list \<Rightarrow> error + (binding list \<times> addr list)" where
  "create_bindings_for_inputs iface [] = Inr ([], [])"
| "create_bindings_for_inputs iface ((k, v) # kvs) =
     (if map_of (inputs iface) k = None then Inl (UnknownInput k)
      else
        (case create_bindings_for_inputs iface kvs of
           Inl e \<Rightarrow> Inl e
         | Inr (bs, ups) \<Rightarrow>
             (case v of
                NodeOutputV out \<Rightarrow>
                  Inr (\<lparr>var = k, binding = Promise out\<rparr> # bs, List.insert (sdk_node out) ups)
              | _ \<Rightarrow> Inr (\<lparr>var = k, binding = Scalar v\<rparr> # bs, ups))))"

text \<open>
  Modelled from the spec: the constructor of \<^verbatim>\<open>SdkNode\<close> (module
  \<^verbatim>\<open>flytekit.common.nodes\<close>), sections 3 and 4.3: an optional id, the metadata, the
  bindings, the upstream set and exactly one underlying executable, which decides the
  target: a task gives a task reference, a workflow a sub-workflow reference. The source
  files call it with \<^verbatim>\<open>sdk_task=\<close> or \<^verbatim>\<open>sdk_workflow=\<close> only.
\<close>

definition SdkNode ::
  "string option \<Rightarrow> node_metadata \<Rightarrow> binding list \<Rightarrow> addr list \<Rightarrow> executable \<Rightarrow> sdk_node" where
  "SdkNode i md bs ups exe =
     \<lparr>node_id = i, node_metadata = md, bindings = bs, upstream_nodes = ups,
      task_node =
        (case exe of
           PythonTaskExe t \<Rightarrow> Some \<lparr>reference_id = task_id t\<rparr>
         | _ \<Rightarrow> None),
      workflow_node =
        (case exe of
           SdkWorkflowExe w \<Rightarrow> Some \<lparr>launchplan_ref = None, sub_workflow_ref = Some (wf_id w)\<rparr>
         | _ \<Rightarrow> None),
      branch_node = None,
      executable_sdk_object = Some exe\<rparr>"

text \<open>
  Modelled from the spec: the attribute \<^verbatim>\<open>upstream_node_ids\<close> of \<^verbatim>\<open>SdkNode\<close>. A live
  node records its upstream nodes (section 3), the source files build every node from
  \<^verbatim>\<open>upstream_nodes\<close> alone, and the ids the node answers are the ids of these nodes (the
  source warns that a node just made cannot be printed because its ``upstream node ids
  are all None''). They are answered in ascending order, as the wire form is written
  deterministically (section 4.2). Ordering compares the ids, and \<^verbatim>\<open>None\<close> cannot be
  compared: with two or more upstream nodes, one of them without id, the attribute
  raises \<^verbatim>\<open>TypeError\<close>.
\<close>

definition upstream_node_ids ::
  "(addr \<Rightarrow> sdk_node) \<Rightarrow> sdk_node \<Rightarrow> error + string option list" where
  "upstream_node_ids h n =
     (let ids = map (\<lambda>u. node_id (h u)) (upstream_nodes n) in
      if length ids \<le> 1 then Inr ids
      else if None \<in> set ids then Inl TypeError
      else Inr (map Some (sort (map the ids))))"

text \<open>
  Modelled from the spec: \<^verbatim>\<open>OutputParameterMapper\<close> (module \<^verbatim>\<open>flytekit.common.nodes\<close>),
  section 4.3: subscripting it by an output name of the interface gives the handle for
  that output of the node; a name the interface does not have is a \<^verbatim>\<open>KeyError\<close>, as for
  any mapping.
\<close>

definition OutputParameterMapper_getitem ::
  "(string \<times> variable) list \<times> addr \<Rightarrow> string \<Rightarrow> error + node_output" where
  "OutputParameterMapper_getitem ppp key =
     (case map_of (fst ppp) key of
        None \<Rightarrow> Inl (KeyError (Some key))
      | Some v \<Rightarrow> Inr (NodeOutput (snd ppp) (var_type v) key))"

section \<open>\<^verbatim>\<open>flytekit/annotated/stuff.py\<close>: tasks\<close>

text \<open>
  The list comprehension \<^verbatim>\<open>[ppp[self._outputs[i]] for i in range(0, len(self._outputs))]\<close>:
  one subscript per declared name, in order, stopping at the first that raises.
\<close>

fun wrapped_nodes ::
  "(string \<times> variable) list \<times> addr \<Rightarrow> string list \<Rightarrow> error + node_output list" where
  "wrapped_nodes ppp [] = Inr []"
| "wrapped_nodes ppp (n # ns) =
     (case OutputParameterMapper_getitem ppp n of
        Inl e \<Rightarrow> Inl e
      | Inr h \<Rightarrow> (case wrapped_nodes ppp ns of Inl e \<Rightarrow> Inl e | Inr hs \<Rightarrow> Inr (h # hs)))"

text \<open>
  \<^verbatim>\<open>PythonTask.__call__\<close>. In compile mode the node is made before the length of
  \<^verbatim>\<open>self._outputs\<close> is asked for; \<^verbatim>\<open>len(None)\<close> is a \<^verbatim>\<open>TypeError\<close> and
  \<^verbatim>\<open>self._outputs[0]\<close> on an empty list an \<^verbatim>\<open>IndexError\<close>.
\<close>

definition PythonTask_call ::
  "python_task \<Rightarrow> py_value list \<Rightarrow> (string \<times> py_value) list \<Rightarrow> state
     \<Rightarrow> (error + py_value) \<times> state" where
  "PythonTask_call self args kwargs s =
     (if CONFIGURATION_SINGLETON_x s = 1 then
        (if length args > 0 then (Inl FlyteAssertion, s)
         else
           (case create_bindings_for_inputs (interface self) kwargs of
              Inl e \<Rightarrow> (Inl e, s)
            | Inr (bs, ups) \<Rightarrow>
                (let (node, s') =
                       alloc (SdkNode None
                                \<lparr>node_name = [], node_timeout = timeout (metadata self),
                                 node_retries = retries (metadata self),
                                 node_interruptible = interruptible (metadata self)\<rparr>
                                (sort_key var bs) ups (PythonTaskExe self)) s;
                     ppp = (outputs (interface self), node)
                 in
                   (case task_outputs self of
                      None \<Rightarrow> (Inl TypeError, s')
                    | Some outs \<Rightarrow>
                        (if length outs > 1 then
                           (case wrapped_nodes ppp outs of
                              Inl e \<Rightarrow> (Inl e, s')
                            | Inr hs \<Rightarrow> (Inr (TupleV (map NodeOutputV hs)), s'))
                         else
                           (case outs of
                              [] \<Rightarrow> (Inl IndexError, s')
                            | n # _ \<Rightarrow>
                                (case OutputParameterMapper_getitem ppp n of
                                   Inl e \<Rightarrow> (Inl e, s')
                                 | Inr h \<Rightarrow> (Inr (NodeOutputV h), s'))))))))
      else (task_function self args kwargs, s))"

text \<open>
  The \<^verbatim>\<open>wrapper\<close> inside \<^verbatim>\<open>task\<close>. The interface is built from \<^verbatim>\<open>outputs or []\<close>, the
  task object keeps \<^verbatim>\<open>outputs\<close> as it was given. \<^verbatim>\<open>timeout or timedelta(seconds=0)\<close>
  is the timeout when there is one and it is not zero, and zero otherwise.
\<close>

definition task_wrapper :: "task_options \<Rightarrow> task_fn \<Rightarrow> error + python_task" where
  "task_wrapper opts fn =
     (let md = \<lparr>discoverable = opt_cache opts,
                runtime = \<lparr>runtime_kind = FLYTE_SDK, runtime_version = ''1.2.3'',
                           flavor = ''python''\<rparr>,
                timeout = (case opt_timeout opts of None \<Rightarrow> 0 | Some t \<Rightarrow> t),
                retries = RetryStrategy (opt_retries opts),
                interruptible = opt_interruptible opts,
                discovery_version = opt_cache_version opts,
                deprecated_error_message = opt_deprecated opts\<rparr>
      in
        (case get_interface_from_task_info (annotations fn)
                (case opt_outputs opts of None \<Rightarrow> [] | Some names \<Rightarrow> names) of
           Inl e \<Rightarrow> Inl e
         | Inr iface \<Rightarrow>
             Inr \<lparr>task_function = call fn, interface = iface, metadata = md, info = opts,
                  task_outputs = opt_outputs opts,
                  task_id = Some \<lparr>resource_type = TASK, project = ''proj'',
                                   domain = ''dom'', ident_name = ''blah'',
                                   version = ''1''\<rparr>\<rparr>))"

section \<open>\<^verbatim>\<open>flytekit/annotated/stuff.py\<close>: workflows\<close>

text \<open>
  A workflow function, as the decorator sees it: its annotations, the defaults of its
  parameters (\<^verbatim>\<open>get_default_args\<close>), and what a call with keyword arguments does to the
  process state and returns; \<^verbatim>\<open>fn()\<close> is the call with none.
\<close>

record workflow_fn =
  wf_annotations :: "(string \<times> py_annot) list"
  wf_defaults :: "(string \<times> py_value) list"
  wf_call :: "(string \<times> py_value) list \<Rightarrow> state \<Rightarrow> (error + py_value) \<times> state"

record workflow_input =
  input_name :: string
  input_type :: literal_type
  input_default :: "py_value option"

record workflow_obj =
  workflow_function :: workflow_fn
  workflow_id :: "identifier_model option"

definition WorkflowOutputs :: "py_value list \<Rightarrow> (string \<times> py_value) list \<Rightarrow> error + py_value" where
  "WorkflowOutputs args kwargs =
     (if length kwargs > 0 then Inl (Exception ''nope, can't do this'')
      else Inr (WorkflowOutputsV args))"

text \<open>
  \<^verbatim>\<open>Workflow.__call__\<close>: in compile mode it only logs and falls off the end, which
  returns \<^verbatim>\<open>None\<close>.
\<close>

definition Workflow_call ::
  "workflow_obj \<Rightarrow> py_value list \<Rightarrow> (string \<times> py_value) list \<Rightarrow> state
     \<Rightarrow> (error + py_value) \<times> state" where
  "Workflow_call self args kwargs s =
     (if CONFIGURATION_SINGLETON_x s = 1 then
        (if length args > 0 then (Inl (Exception ''not allowed''), s) else (Inr PyNone, s))
      else
        (if length args > 0
         then (Inl (Exception ''When using the workflow decorator, all inputs must be specified with kwargs only''), s)
         else wf_call (workflow_function self) kwargs s))"

text \<open>
  Modelled from the spec: \<^verbatim>\<open>get_sdk_type_from_literal_type\<close> (module
  \<^verbatim>\<open>flytekit.common.types.helpers\<close>) and the constructor of
  \<^verbatim>\<open>flytekit.common.promise.Input\<close>, imported as \<^verbatim>\<open>_WorkflowInput\<close>. The specification
  says of them only that a workflow body with inputs is not supported (sections 4.5 and
  9). The first reads the attributes of a literal type, which the class stored for
  \<^verbatim>\<open>bool\<close> does not have, and gives back the SDK type, kept here as the literal type
  itself. The second names its parameter for the type \<^verbatim>\<open>sdk_type\<close>, so that the call
  with the keyword \<^verbatim>\<open>type\<close>, the only one the source makes, is rejected with
  \<^verbatim>\<open>TypeError\<close>.
\<close>

fun get_sdk_type_from_literal_type :: "literal_type \<Rightarrow> error + literal_type" where
  "get_sdk_type_from_literal_type (SdkTypeClass c) = Inl AttributeError"
| "get_sdk_type_from_literal_type (FlyteLiteralType t) = Inr (FlyteLiteralType t)"

definition WorkflowInput ::
  "string \<Rightarrow> literal_type \<Rightarrow> py_value option \<Rightarrow> error + workflow_input" where
  "WorkflowInput name ty dflt = Inl TypeError"

text \<open>
  The loop that builds \<^verbatim>\<open>input_parameters\<close>; the list is not read again. Only a
  function without annotated parameters gets past the loop.
\<close>

fun input_parameters ::
  "(string \<times> variable) list \<Rightarrow> (string \<times> py_value) list \<Rightarrow> error + workflow_input list" where
  "input_parameters [] default_inputs = Inr []"
| "input_parameters ((name, input_variable_obj) # rest) default_inputs =
     (case get_sdk_type_from_literal_type (var_type input_variable_obj) of
        Inl e \<Rightarrow> Inl e
      | Inr sdk_ty \<Rightarrow>
          (case WorkflowInput name sdk_ty (map_of default_inputs name) of
             Inl e \<Rightarrow> Inl e
           | Inr p \<Rightarrow>
               (case input_parameters rest default_inputs of
                  Inl e \<Rightarrow> Inl e
                | Inr ps \<Rightarrow> Inr (p # ps))))"

text \<open>
  The loop over \<^verbatim>\<open>workflow_outputs._args\<close>. Its body is one logging call whose message
  reads, in this order, \<^verbatim>\<open>out.var\<close>, \<^verbatim>\<open>outputs[i]\<close> and \<^verbatim>\<open>out.sdk_type\<close>: a value that
  is no output handle has no \<^verbatim>\<open>var\<close>, \<^verbatim>\<open>None\<close> cannot be subscripted, and an index
  past the end of the names raises.
\<close>

fun outputs_loop :: "string list option \<Rightarrow> nat \<Rightarrow> py_value list \<Rightarrow> error + nat" where
  "outputs_loop outs i [] = Inr i"
| "outputs_loop outs i (out # rest) =
     (case out of
        NodeOutputV h \<Rightarrow>
          (case outs of
             None \<Rightarrow> Inl TypeError
           | Some names \<Rightarrow>
               (if i < length names then outputs_loop outs (i + 1) rest else Inl IndexError))
      | _ \<Rightarrow> Inl AttributeError)"

text \<open>
  The \<^verbatim>\<open>wrapper\<close> inside \<^verbatim>\<open>workflow\<close>. The flag is saved, set, and written back by the
  last statement before the return; nothing catches an exception on the way, so every
  \<open>Inl\<close> below leaves with the state as it is at that point.
\<close>

definition workflow_wrapper ::
  "string list option \<Rightarrow> workflow_fn \<Rightarrow> state \<Rightarrow> (error + workflow_obj) \<times> state" where
  "workflow_wrapper outs fn s =
     (let old_setting = CONFIGURATION_SINGLETON_x s;
          s1 = s\<lparr>CONFIGURATION_SINGLETON_x := 1\<rparr>
      in
        (case get_variable_map (filter (\<lambda>kv. fst kv \<noteq> ''return'') (wf_annotations fn)) of
           Inl e \<Rightarrow> (Inl e, s1)
         | Inr inputs_map \<Rightarrow>
             (case input_parameters inputs_map (wf_defaults fn) of
                Inl e \<Rightarrow> (Inl e, s1)
              | Inr params \<Rightarrow>
                  (let (r, s2) = wf_call fn [] s1
                   in
                     (case r of
                        Inl e \<Rightarrow> (Inl e, s2)
                      | Inr (WorkflowOutputsV args) \<Rightarrow>
                          (case outputs_loop outs 0 args of
                             Inl e \<Rightarrow> (Inl e, s2)
                           | Inr i \<Rightarrow>
                               (Inr \<lparr>workflow_function = fn,
                                     workflow_id =
                                       Some \<lparr>resource_type = WORKFLOW, project = ''proj'',
                                             domain = ''dom'', ident_name = ''moreblah'',
                                             version = ''1''\<rparr>\<rparr>,
                                s2\<lparr>CONFIGURATION_SINGLETON_x := old_setting\<rparr>))
                      | Inr _ \<Rightarrow> (Inl AttributeError, s2))))))"

section \<open>\<^verbatim>\<open>flytekit/common/workflow.py\<close>: \<^verbatim>\<open>SdkWorkflow\<close>\<close>

text \<open>
  What the constructor reads from the configuration and from \<^verbatim>\<open>uuid4\<close> when no id is
  given, and the interpreter's bound on nested calls.
\<close>

record env =
  PROJECT :: string
  DOMAIN :: string
  VERSION :: string
  uuid4_hex :: string
  recursion_limit :: nat

text \<open>The two loops that open \<^verbatim>\<open>SdkWorkflow.__init__\<close>: is there an upstream node with no id?\<close>

fun upstream_without_id :: "(addr \<Rightarrow> sdk_node) \<Rightarrow> addr list \<Rightarrow> bool" where
  "upstream_without_id h [] = False"
| "upstream_without_id h (upstream # rest) =
     (if node_id (h upstream) = None then True else upstream_without_id h rest)"

fun nodes_with_upstream_without_id :: "(addr \<Rightarrow> sdk_node) \<Rightarrow> addr list \<Rightarrow> bool" where
  "nodes_with_upstream_without_id h [] = False"
| "nodes_with_upstream_without_id h (n # ns) =
     (if upstream_without_id h (upstream_nodes (h n)) then True
      else nodes_with_upstream_without_id h ns)"

definition SdkWorkflow_init ::
  "env \<Rightarrow> (addr \<Rightarrow> sdk_node) \<Rightarrow> addr list \<Rightarrow> typed_interface \<Rightarrow> binding list
     \<Rightarrow> identifier_model option \<Rightarrow> workflow_metadata option
     \<Rightarrow> workflow_metadata_defaults option \<Rightarrow> error + sdk_workflow" where
  "SdkWorkflow_init cfg h nodes iface output_bindings ident md md_defaults =
     (if nodes_with_upstream_without_id h nodes then Inl FlyteAssertion
      else
        Inr \<lparr>wf_id =
               (case ident of
                  Some i \<Rightarrow> i
                | None \<Rightarrow> \<lparr>resource_type = WORKFLOW, project = PROJECT cfg,
                             domain = DOMAIN cfg, ident_name = uuid4_hex cfg,
                             version = VERSION cfg\<rparr>),
             wf_metadata = (case md of Some m \<Rightarrow> m | None \<Rightarrow> WorkflowMetadata),
             wf_metadata_defaults =
               (case md_defaults of Some m \<Rightarrow> m | None \<Rightarrow> WorkflowMetadataDefaults),
             wf_interface = iface,
             wf_nodes = nodes,
             wf_outputs = output_bindings\<rparr>)"

text \<open>
  \<^verbatim>\<open>get_sub_workflows\<close> calls itself on every sub-workflow it finds. The first argument
  is how many nested calls the interpreter still allows; when none is left the call
  raises \<^verbatim>\<open>RecursionError\<close>, as Python does. An executable that answers
  \<^verbatim>\<open>"Workflow"\<close> without being an \<^verbatim>\<open>SdkWorkflow\<close> has no method to call.
\<close>

fun get_sub_workflows ::
    "nat \<Rightarrow> (addr \<Rightarrow> sdk_node) \<Rightarrow> sdk_workflow \<Rightarrow> error + sdk_workflow list"
  and get_sub_workflows_loop ::
    "nat \<Rightarrow> (addr \<Rightarrow> sdk_node) \<Rightarrow> sdk_workflow list \<Rightarrow> addr list \<Rightarrow> error + sdk_workflow list"
  where
  "get_sub_workflows 0 h self = Inl RecursionError"
| "get_sub_workflows (Suc d) h self = get_sub_workflows_loop d h [] (wf_nodes self)"
| "get_sub_workflows_loop d h result [] = Inr result"
| "get_sub_workflows_loop d h result (n # ns) =
     (if workflow_node (h n) \<noteq> None
         \<and> sub_workflow_ref (the (workflow_node (h n))) \<noteq> None
      then
        (case executable_sdk_object (h n) of
           None \<Rightarrow> Inl FlyteSystemException
         | Some exe \<Rightarrow>
             (case entity_type_text exe of
                None \<Rightarrow> Inl AttributeError
              | Some txt \<Rightarrow>
                  (if txt = ''Workflow'' then
                     (case exe of
                        SdkWorkflowExe w \<Rightarrow>
                          (case get_sub_workflows d h w of
                             Inl e \<Rightarrow> Inl e
                           | Inr subs \<Rightarrow>
                               get_sub_workflows_loop d h (result @ [w] @ subs) ns)
                      | _ \<Rightarrow> Inl AttributeError)
                   else Inl FlyteSystemException)))
      else get_sub_workflows_loop d h result ns)"

text \<open>
  The wire classes \<^verbatim>\<open>flytekit.models.core.workflow.Node\<close> and \<^verbatim>\<open>WorkflowTemplate\<close>, as
  far as \<^verbatim>\<open>promote_from_model\<close> reads them. The id of a wire node is a text.
\<close>

record model_node =
  m_id :: string
  m_metadata :: node_metadata
  m_inputs :: "binding list"
  m_upstream_node_ids :: "string list"
  m_task_node :: "task_node option"
  m_workflow_node :: "workflow_node option"
  m_branch_node :: "branch_node option"

record model_template =
  t_id :: identifier_model
  t_metadata :: workflow_metadata
  t_metadata_defaults :: workflow_metadata_defaults
  t_interface :: typed_interface
  t_nodes :: "model_node list"
  t_outputs :: "binding list"

text \<open>
  Modelled from the spec: the constants \<^verbatim>\<open>START_NODE_ID\<close> and \<^verbatim>\<open>END_NODE_ID\<close> of
  \<^verbatim>\<open>flytekit.common.constants\<close>, the system-reserved start and end node ids of
  section 4.6.
\<close>

definition START_NODE_ID :: string where
  "START_NODE_ID = ''start-node''"

definition END_NODE_ID :: string where
  "END_NODE_ID = ''end-node''"

definition get_non_system_nodes :: "model_node list \<Rightarrow> model_node list" where
  "get_non_system_nodes nodes =
     filter (\<lambda>n. m_id n \<notin> {START_NODE_ID, END_NODE_ID}) nodes"

text \<open>
  Modelled from the spec: \<^verbatim>\<open>SdkNode.promote_from_model\<close> (module
  \<^verbatim>\<open>flytekit.common.nodes\<close>), sections 3, 4.3 and 4.6: the live node of a wire node has
  its id, metadata, bindings and target. A live node has an upstream set and nothing
  else that could hold the wire node's list of upstream ids; the set starts empty, since
  filling it is what the loop of \<^verbatim>\<open>promote_from_model\<close> is there for (``wires upstream
  dependencies by id lookup''). How the executable is found from the two dictionaries
  is not described; \<open>resolve\<close> stands for it, and it may fail (a task or sub-workflow
  that is in neither dictionary has to be fetched from the control plane, and not every
  kind of node need be supported).
\<close>

definition SdkNode_promote_from_model ::
  "('sw \<Rightarrow> 'tk \<Rightarrow> model_node \<Rightarrow> error + executable option) \<Rightarrow> model_node \<Rightarrow> 'sw \<Rightarrow> 'tk
     \<Rightarrow> error + sdk_node" where
  "SdkNode_promote_from_model resolve n sub_workflows tasks =
     (case resolve sub_workflows tasks n of
        Inl e \<Rightarrow> Inl e
      | Inr exe \<Rightarrow>
          Inr \<lparr>node_id = Some (m_id n), node_metadata = m_metadata n, bindings = m_inputs n,
               upstream_nodes = [],
               task_node = m_task_node n,
               workflow_node = m_workflow_node n,
               branch_node = m_branch_node n,
               executable_sdk_object = exe\<rparr>)"

text \<open>
  Modelled from the spec: the operator \<^verbatim>\<open>current << upstream_node\<close> of \<^verbatim>\<open>SdkNode\<close>,
  section 4.3: it declares that the node depends on the other one, that is, it adds the
  other node to the node's upstream set.
\<close>

definition lshift :: "addr \<Rightarrow> addr \<Rightarrow> state \<Rightarrow> state" where
  "lshift current upstream_node s =
     s\<lparr>heap := (heap s)(current :=
          (heap s current)\<lparr>upstream_nodes :=
             (if upstream_node \<in> set (upstream_nodes (heap s current))
              then upstream_nodes (heap s current)
              else upstream_nodes (heap s current) @ [upstream_node])\<rparr>)\<rparr>"

text \<open>
  The dict comprehension that builds \<^verbatim>\<open>node_map\<close>: every non-system node is promoted,
  in the order of the list, and a later node with an id already seen takes the place of
  the earlier one. The first node that cannot be promoted ends it.
\<close>

fun build_node_map ::
  "('sw \<Rightarrow> 'tk \<Rightarrow> model_node \<Rightarrow> error + executable option) \<Rightarrow> 'sw \<Rightarrow> 'tk
     \<Rightarrow> (string \<times> addr) list \<Rightarrow> model_node list \<Rightarrow> state
     \<Rightarrow> (error + (string \<times> addr) list) \<times> state" where
  "build_node_map resolve sub_workflows tasks node_map [] s = (Inr node_map, s)"
| "build_node_map resolve sub_workflows tasks node_map (n # ns) s =
     (case SdkNode_promote_from_model resolve n sub_workflows tasks of
        Inl e \<Rightarrow> (Inl e, s)
      | Inr node \<Rightarrow>
          (let (a, s') = alloc node s
           in build_node_map resolve sub_workflows tasks (AList.update (m_id n) a node_map)
                ns s'))"

text \<open>
  The inner loop: \<^verbatim>\<open>for upstream_id in current.upstream_node_ids\<close>. The keys of the
  map are texts, so an id that is \<^verbatim>\<open>None\<close> is not among them.
\<close>

fun set_upstream_nodes ::
  "(string \<times> addr) list \<Rightarrow> addr \<Rightarrow> string option list \<Rightarrow> state \<Rightarrow> error option \<times> state" where
  "set_upstream_nodes node_map current [] s = (None, s)"
| "set_upstream_nodes node_map current (upstream_id # rest) s =
     (case (case upstream_id of None \<Rightarrow> None | Some i \<Rightarrow> map_of node_map i) of
        None \<Rightarrow> (Some (KeyError upstream_id), s)
      | Some upstream_node \<Rightarrow>
          set_upstream_nodes node_map current rest (lshift current upstream_node s))"

text \<open>
  The outer loop: \<^verbatim>\<open>for n in base_model_non_system_nodes\<close>. The ids it walks through
  are those the live node \<^verbatim>\<open>current\<close> answers, not those of the wire node \<^verbatim>\<open>n\<close>.
\<close>

fun set_all_upstream_nodes ::
  "(string \<times> addr) list \<Rightarrow> model_node list \<Rightarrow> state \<Rightarrow> error option \<times> state" where
  "set_all_upstream_nodes node_map [] s = (None, s)"
| "set_all_upstream_nodes node_map (n # ns) s =
     (case map_of node_map (m_id n) of
        None \<Rightarrow> (Some (KeyError (Some (m_id n))), s)
      | Some current \<Rightarrow>
          (case upstream_node_ids (heap s) (heap s current) of
             Inl e \<Rightarrow> (Some e, s)
           | Inr ids \<Rightarrow>
               (case set_upstream_nodes node_map current ids s of
                  (Some e, s') \<Rightarrow> (Some e, s')
                | (None, s') \<Rightarrow> set_all_upstream_nodes node_map ns s')))"

text \<open>
  \<^verbatim>\<open>promote_from_model\<close>. \<^verbatim>\<open>sub_workflows or {}\<close> and \<^verbatim>\<open>tasks or {}\<close> replace an absent
  dictionary by the empty one. The constructor is called with the id, the metadata and
  the defaults of the template.
\<close>

definition promote_from_model ::
  "env \<Rightarrow> (('i \<times> 'a) list \<Rightarrow> ('j \<times> 'b) list \<Rightarrow> model_node \<Rightarrow> error + executable option)
     \<Rightarrow> model_template \<Rightarrow> ('i \<times> 'a) list option \<Rightarrow> ('j \<times> 'b) list option \<Rightarrow> state
     \<Rightarrow> (error + sdk_workflow) \<times> state" where
  "promote_from_model cfg resolve base_model sub_workflows tasks s =
     (let base_model_non_system_nodes = get_non_system_nodes (t_nodes base_model);
          sub_workflows' = (case sub_workflows of None \<Rightarrow> [] | Some d \<Rightarrow> d);
          tasks' = (case tasks of None \<Rightarrow> [] | Some d \<Rightarrow> d)
      in
        (case build_node_map resolve sub_workflows' tasks' [] base_model_non_system_nodes s of
           (Inl e, s1) \<Rightarrow> (Inl e, s1)
         | (Inr node_map, s1) \<Rightarrow>
             (case set_all_upstream_nodes node_map base_model_non_system_nodes s1 of
                (Some e, s2) \<Rightarrow> (Inl e, s2)
              | (None, s2) \<Rightarrow>
                  (SdkWorkflow_init cfg (heap s2) (map snd node_map) (t_interface base_model)
                     (t_outputs base_model) (Some (t_id base_model))
                     (Some (t_metadata base_model))
                     (Some (t_metadata_defaults base_model)), s2))))"

text \<open>
  The control-plane client: whether getting hold of it fails, and what
  \<^verbatim>\<open>create_workflow\<close> does to the remote side and answers.
\<close>

record workflow_spec =
  spec_template :: sdk_workflow
  spec_sub_workflows :: "sdk_workflow list"

record 'r client =
  client_error :: "error option"
  create_workflow :: "identifier_model \<Rightarrow> workflow_spec \<Rightarrow> 'r \<Rightarrow> error option \<times> 'r"

text \<open>
  Modelled from the spec: \<^verbatim>\<open>str(id_to_register)\<close>, the text of an \<^verbatim>\<open>Identifier\<close>
  (module \<^verbatim>\<open>flytekit.common.core.identifier\<close>). The specification does not give its
  format; it is taken to be the tag of the resource type (\<^verbatim>\<open>wf\<close> for a workflow,
  \<^verbatim>\<open>tsk\<close> for a task) followed by project, domain, name and version, joined by colons.
  Nothing but the text returned by a successful \<^verbatim>\<open>register\<close> depends on it.
\<close>

definition str_identifier :: "identifier_model \<Rightarrow> string" where
  "str_identifier i =
     (case resource_type i of TASK \<Rightarrow> ''tsk'' | WORKFLOW \<Rightarrow> ''wf'')
       @ '':'' @ project i @ '':'' @ domain i @ '':'' @ ident_name i @ '':'' @ version i"

text \<open>
  The body of the \<^verbatim>\<open>try\<close> statement of \<^verbatim>\<open>register\<close>; \<open>self\<close> already carries the id to
  register.
\<close>

definition register_try ::
  "env \<Rightarrow> 'r client \<Rightarrow> (addr \<Rightarrow> sdk_node) \<Rightarrow> sdk_workflow \<Rightarrow> identifier_model \<Rightarrow> 'r
     \<Rightarrow> (error + string) \<times> 'r" where
  "register_try cfg cl h self id_to_register remote =
     (case client_error cl of
        Some e \<Rightarrow> (Inl e, remote)
      | None \<Rightarrow>
          (case get_sub_workflows (recursion_limit cfg) h self of
             Inl e \<Rightarrow> (Inl e, remote)
           | Inr sub_workflows \<Rightarrow>
               (case create_workflow cl id_to_register
                       \<lparr>spec_template = self, spec_sub_workflows = sub_workflows\<rparr> remote of
                  (Some e, remote') \<Rightarrow> (Inl e, remote')
                | (None, remote') \<Rightarrow> (Inr (str_identifier id_to_register), remote'))))"

text \<open>
  \<^verbatim>\<open>register\<close>: the result, the workflow object afterwards, the remote side afterwards.
  \<^verbatim>\<open>validate\<close> does nothing. A return value of \<open>None\<close> is Python's \<^verbatim>\<open>None\<close>, which
  is what falling out of the first handler returns.
\<close>

definition register ::
  "env \<Rightarrow> 'r client \<Rightarrow> (addr \<Rightarrow> sdk_node) \<Rightarrow> sdk_workflow
     \<Rightarrow> string \<Rightarrow> string \<Rightarrow> string \<Rightarrow> string \<Rightarrow> 'r
     \<Rightarrow> (error + string option) \<times> sdk_workflow \<times> 'r" where
  "register cfg cl h self proj dmn nm ver remote =
     (let id_to_register = \<lparr>resource_type = WORKFLOW, project = proj, domain = dmn,
                             ident_name = nm, version = ver\<rparr>;
          old_id = wf_id self;
          self1 = self\<lparr>wf_id := id_to_register\<rparr>
      in
        (case register_try cfg cl h self1 id_to_register remote of
           (Inr txt, remote') \<Rightarrow> (Inr (Some txt), self1\<lparr>wf_id := id_to_register\<rparr>, remote')
         | (Inl e, remote') \<Rightarrow>
             (if e = FlyteEntityAlreadyExistsException then (Inr None, self1, remote')
              else (Inl e, self1\<lparr>wf_id := old_id\<rparr>, remote'))))"

text \<open>
  \<^verbatim>\<open>SdkWorkflow.__call__\<close>: a workflow used as a node of another one. It does not look
  at the compile flag. The metadata is made without an interruptible flag, which the
  metadata class then defaults to \<^verbatim>\<open>False\<close>.
\<close>

definition SdkWorkflow_call ::
  "sdk_workflow \<Rightarrow> py_value list \<Rightarrow> (string \<times> py_value) list \<Rightarrow> state
     \<Rightarrow> (error + addr) \<times> state" where
  "SdkWorkflow_call self args input_map s =
     (if length args > 0 then (Inl FlyteAssertion, s)
      else
        (case create_bindings_for_inputs (wf_interface self) input_map of
           Inl e \<Rightarrow> (Inl e, s)
         | Inr (bs, ups) \<Rightarrow>
             (let (node, s') =
                    alloc (SdkNode None
                             \<lparr>node_name = ''placeholder'', node_timeout = 0,
                              node_retries = RetryStrategy 0, node_interruptible = Some False\<rparr>
                             (sort_key var bs) ups (SdkWorkflowExe self)) s
              in (Inr node, s'))))"

text \<open>
  Modelled from the spec: \<^verbatim>\<open>WorkflowSpec.to_flyte_idl\<close> (the wire classes of
  \<^verbatim>\<open>flytekit.models\<close>), sections 3 and 4.6: the wire form of a workflow keeps its
  identifier, metadata, interface and output bindings and, for every node in order, the
  node's id, metadata, bindings, the ids of its upstream nodes and its target; a binding
  to a live output handle is written as a reference to the id of the handle's node.
  The wire form holds texts where a live node has an id or none: an absent id is
  written as the empty text. The upstream ids are those the node answers; they go into
  a list of texts, into which \<^verbatim>\<open>None\<close> cannot be put, so a node with an upstream node
  without id cannot be written (\<^verbatim>\<open>TypeError\<close>).
\<close>

definition id_text :: "string option \<Rightarrow> string" where
  "id_text i = (case i of None \<Rightarrow> [] | Some txt \<Rightarrow> txt)"

definition binding_to_model :: "(addr \<Rightarrow> sdk_node) \<Rightarrow> binding \<Rightarrow> binding" where
  "binding_to_model h b =
     (case binding b of
        Promise out \<Rightarrow>
          b\<lparr>binding := OutputReference (id_text (node_id (h (sdk_node out)))) (output_var out)\<rparr>
      | _ \<Rightarrow> b)"

definition node_to_model :: "(addr \<Rightarrow> sdk_node) \<Rightarrow> addr \<Rightarrow> error + model_node" where
  "node_to_model h a =
     (case upstream_node_ids h (h a) of
        Inl e \<Rightarrow> Inl e
      | Inr ids \<Rightarrow>
          (if None \<in> set ids then Inl TypeError
           else
             Inr \<lparr>m_id = id_text (node_id (h a)), m_metadata = node_metadata (h a),
                  m_inputs = map (binding_to_model h) (bindings (h a)),
                  m_upstream_node_ids = map the ids,
                  m_task_node = task_node (h a),
                  m_workflow_node = workflow_node (h a),
                  m_branch_node = branch_node (h a)\<rparr>))"

fun nodes_to_model :: "(addr \<Rightarrow> sdk_node) \<Rightarrow> addr list \<Rightarrow> error + model_node list" where
  "nodes_to_model h [] = Inr []"
| "nodes_to_model h (a # rest) =
     (case node_to_model h a of
        Inl e \<Rightarrow> Inl e
      | Inr n \<Rightarrow>
          (case nodes_to_model h rest of
             Inl e \<Rightarrow> Inl e
           | Inr ns \<Rightarrow> Inr (n # ns)))"

definition template_to_model ::
  "(addr \<Rightarrow> sdk_node) \<Rightarrow> sdk_workflow \<Rightarrow> error + model_template" where
  "template_to_model h w =
     (case nodes_to_model h (wf_nodes w) of
        Inl e \<Rightarrow> Inl e
      | Inr ns \<Rightarrow>
          Inr \<lparr>t_id = wf_id w, t_metadata = wf_metadata w,
               t_metadata_defaults = wf_metadata_defaults w, t_interface = wf_interface w,
               t_nodes = ns,
               t_outputs = map (binding_to_model h) (wf_outputs w)\<rparr>)"

fun templates_to_model ::
  "(addr \<Rightarrow> sdk_node) \<Rightarrow> sdk_workflow list \<Rightarrow> error + model_template list" where
  "templates_to_model h [] = Inr []"
| "templates_to_model h (w # rest) =
     (case template_to_model h w of
        Inl e \<Rightarrow> Inl e
      | Inr t \<Rightarrow>
          (case templates_to_model h rest of
             Inl e \<Rightarrow> Inl e
           | Inr ts \<Rightarrow> Inr (t # ts)))"

record wire_workflow_spec =
  wire_template :: model_template
  wire_sub_workflows :: "model_template list"

definition to_flyte_idl ::
  "(addr \<Rightarrow> sdk_node) \<Rightarrow> workflow_spec \<Rightarrow> error + wire_workflow_spec" where
  "to_flyte_idl h spec =
     (case template_to_model h (spec_template spec) of
        Inl e \<Rightarrow> Inl e
      | Inr t \<Rightarrow>
          (case templates_to_model h (spec_sub_workflows spec) of
             Inl e \<Rightarrow> Inl e
           | Inr ts \<Rightarrow> Inr \<lparr>wire_template = t, wire_sub_workflows = ts\<rparr>))"

text \<open>\<^verbatim>\<open>serialize\<close>: the sub-workflows are collected first, then the spec is written out.\<close>

definition serialize ::
  "env \<Rightarrow> (addr \<Rightarrow> sdk_node) \<Rightarrow> sdk_workflow \<Rightarrow> error + wire_workflow_spec" where
  "serialize cfg h self =
     (case get_sub_workflows (recursion_limit cfg) h self of
        Inl e \<Rightarrow> Inl e
      | Inr sub_workflows \<Rightarrow>
          to_flyte_idl h \<lparr>spec_template = self, spec_sub_workflows = sub_workflows\<rparr>)"

section \<open>Concrete inputs\<close>

text \<open>
  A store with nothing in it yet, in compile mode and out of it, and one in which a
  single node has been made.
\<close>

definition no_node :: sdk_node where
  "no_node =
     \<lparr>node_id = None,
      node_metadata = \<lparr>node_name = [], node_timeout = 0, node_retries = RetryStrategy 0,
                       node_interruptible = None\<rparr>,
      bindings = [], upstream_nodes = [], task_node = None, workflow_node = None,
      branch_node = None, executable_sdk_object = None\<rparr>"

definition compiling_state :: state where
  "compiling_state = \<lparr>heap = (\<lambda>a. no_node), next_addr = 0, CONFIGURATION_SINGLETON_x = 1\<rparr>"

definition local_state :: state where
  "local_state = \<lparr>heap = (\<lambda>a. no_node), next_addr = 0, CONFIGURATION_SINGLETON_x = 0\<rparr>"

definition one_node_state :: state where
  "one_node_state = \<lparr>heap = (\<lambda>a. no_node), next_addr = 1, CONFIGURATION_SINGLETON_x = 1\<rparr>"

text \<open>The decorator \<^verbatim>\<open>task\<close> with every argument left at its default.\<close>

definition default_options :: task_options where
  "default_options =
     \<lparr>opt_outputs = None, opt_cache_version = [], opt_retries = 0, opt_interruptible = None,
      opt_deprecated = [], opt_storage_request = None, opt_cpu_request = None,
      opt_gpu_request = None, opt_memory_request = None, opt_storage_limit = None,
      opt_cpu_limit = None, opt_gpu_limit = None, opt_memory_limit = None,
      opt_cache = False, opt_timeout = None, opt_environment = None\<rparr>"

text \<open>
  \<^verbatim>\<open>@task(outputs=["x", "y"]) def two(a: int, b: int) -> (int, str)\<close>,
  \<^verbatim>\<open>@task(outputs=["sum"]) def add(a: int, b: int) -> int\<close> and
  \<^verbatim>\<open>@task def nothing(a: int) -> ()\<close>.
\<close>

definition two_fn :: task_fn where
  "two_fn =
     \<lparr>annotations = [(''a'', PyInt), (''b'', PyInt), (''return'', PyTuple [PyInt, PyStr])],
      call = (\<lambda>args kwargs. Inr (TupleV [IntV 0, StrV []]))\<rparr>"

definition two_task :: python_task where
  "two_task = projr (task_wrapper (default_options\<lparr>opt_outputs := Some [''x'', ''y'']\<rparr>) two_fn)"

definition add_fn :: task_fn where
  "add_fn =
     \<lparr>annotations = [(''a'', PyInt), (''b'', PyInt), (''return'', PyInt)],
      call = (\<lambda>args kwargs. Inr (IntV 0))\<rparr>"

definition add_task :: python_task where
  "add_task = projr (task_wrapper (default_options\<lparr>opt_outputs := Some [''sum'']\<rparr>) add_fn)"

definition nothing_fn :: task_fn where
  "nothing_fn =
     \<lparr>annotations = [(''a'', PyInt), (''return'', PyTuple [])],
      call = (\<lambda>args kwargs. Inr PyNone)\<rparr>"

definition nothing_task :: python_task where
  "nothing_task = projr (task_wrapper default_options nothing_fn)"

text \<open>A workflow with the inputs \<open>a\<close> and \<open>b\<close> and no nodes, to be used as a node.\<close>

definition inner_workflow :: sdk_workflow where
  "inner_workflow =
     \<lparr>wf_id = \<lparr>resource_type = WORKFLOW, project = ''p'', domain = ''d'',
                ident_name = ''inner'', version = ''1''\<rparr>,
      wf_metadata = WorkflowMetadata,
      wf_metadata_defaults = WorkflowMetadataDefaults,
      wf_interface =
        \<lparr>inputs = [(''a'', \<lparr>var_type = FlyteLiteralType Integer, description = ''a''\<rparr>),
                   (''b'', \<lparr>var_type = FlyteLiteralType Integer, description = ''b''\<rparr>)],
         outputs = []\<rparr>,
      wf_nodes = [],
      wf_outputs = []\<rparr>"

text \<open>\<^verbatim>\<open>@task(outputs=[]) def nothing(a: int) -> ()\<close>.\<close>

definition empty_task :: python_task where
  "empty_task = projr (task_wrapper (default_options\<lparr>opt_outputs := Some []\<rparr>) nothing_fn)"


text \<open>
  Three workflow bodies without inputs. The first invokes \<^verbatim>\<open>add\<close> and returns
  \<^verbatim>\<open>WorkflowOutputs(s)\<close> for its handle \<open>s\<close>; the second invokes \<^verbatim>\<open>two\<close>, unpacks the
  pair and returns \<^verbatim>\<open>WorkflowOutputs(x, y)\<close>; the third raises.
\<close>

definition one_output_workflow_fn :: workflow_fn where
  "one_output_workflow_fn =
     \<lparr>wf_annotations = [], wf_defaults = [],
      wf_call = (\<lambda>kwargs s.
        (case PythonTask_call add_task [] [(''a'', IntV 1), (''b'', IntV 2)] s of
           (Inl e, s') \<Rightarrow> (Inl e, s')
         | (Inr v, s') \<Rightarrow> (WorkflowOutputs [v] [], s')))\<rparr>"

definition two_output_workflow_fn :: workflow_fn where
  "two_output_workflow_fn =
     \<lparr>wf_annotations = [], wf_defaults = [],
      wf_call = (\<lambda>kwargs s.
        (case PythonTask_call two_task [] [(''a'', IntV 1), (''b'', IntV 2)] s of
           (Inl e, s') \<Rightarrow> (Inl e, s')
         | (Inr (TupleV [x, y]), s') \<Rightarrow> (WorkflowOutputs [x, y] [], s')
         | (Inr _, s') \<Rightarrow> (Inl TypeError, s')))\<rparr>"

definition raising_workflow_fn :: workflow_fn where
  "raising_workflow_fn =
     \<lparr>wf_annotations = [], wf_defaults = [],
      wf_call = (\<lambda>kwargs s. (Inl (UserError ''boom''), s))\<rparr>"


text \<open>A configuration, and two stores holding a node 1 whose upstream node is node 0.\<close>

definition example_env :: env where
  "example_env =
     \<lparr>PROJECT = ''p'', DOMAIN = ''d'', VERSION = ''1'', uuid4_hex = ''0123abcd'',
      recursion_limit = 1000\<rparr>"

definition unnamed_upstream_heap :: "addr \<Rightarrow> sdk_node" where
  "unnamed_upstream_heap =
     (\<lambda>a. no_node)(1 := no_node\<lparr>node_id := Some ''n1'', upstream_nodes := [0]\<rparr>)"

definition named_upstream_heap :: "addr \<Rightarrow> sdk_node" where
  "named_upstream_heap =
     (\<lambda>a. no_node)(0 := no_node\<lparr>node_id := Some ''n0''\<rparr>,
                    1 := no_node\<lparr>node_id := Some ''n1'', upstream_nodes := [0]\<rparr>)"

definition empty_interface :: typed_interface where
  "empty_interface = \<lparr>inputs = [], outputs = []\<rparr>"

text \<open>
  Modelled from the spec: a control plane as section 6 describes the client's
  \<^verbatim>\<open>create_workflow\<close>: it acknowledges an identifier it has not seen and answers
  \<^verbatim>\<open>AlreadyExists\<close> for one it has. The remote state is the list of identifiers
  registered so far. A second client always fails with some other error.
\<close>

definition control_plane :: "identifier_model list client" where
  "control_plane =
     \<lparr>client_error = None,
      create_workflow = (\<lambda>i spec registered.
        if i \<in> set registered then (Some FlyteEntityAlreadyExistsException, registered)
        else (None, i # registered))\<rparr>"

definition broken_control_plane :: "identifier_model list client" where
  "broken_control_plane =
     \<lparr>client_error = None,
      create_workflow = (\<lambda>i spec registered. (Some (RemoteError ''unavailable''), registered))\<rparr>"


text \<open>
  Workflows over given nodes, and stores of task nodes as an invocation of the task
  \<^verbatim>\<open>add\<close> makes them, with ids given afterwards: one whose node 0 carries the reserved
  start id, one whose two nodes share an id, and one in which node 1 binds its input
  \<^verbatim>\<open>b\<close> to the output of node 0, which is therefore its upstream node. In the last
  store the only node is the one a single invocation in compile mode has made, which
  has no id yet.
\<close>

definition workflow_of_nodes :: "addr list \<Rightarrow> sdk_workflow" where
  "workflow_of_nodes ns =
     \<lparr>wf_id = \<lparr>resource_type = WORKFLOW, project = ''p'', domain = ''d'',
                ident_name = ''wf'', version = ''1''\<rparr>,
      wf_metadata = WorkflowMetadata,
      wf_metadata_defaults = WorkflowMetadataDefaults,
      wf_interface = empty_interface,
      wf_nodes = ns,
      wf_outputs = []\<rparr>"

definition add_node :: "string \<Rightarrow> binding list \<Rightarrow> addr list \<Rightarrow> sdk_node" where
  "add_node i bs ups =
     SdkNode (Some i)
       \<lparr>node_name = [], node_timeout = 0, node_retries = RetryStrategy 0,
        node_interruptible = None\<rparr>
       bs ups (PythonTaskExe add_task)"



definition chain_heap :: "addr \<Rightarrow> sdk_node" where
  "chain_heap =
     (\<lambda>a. no_node)
       (0 := add_node ''n0''
               [\<lparr>var = ''a'', binding = Scalar (IntV 1)\<rparr>,
                \<lparr>var = ''b'', binding = Scalar (IntV 2)\<rparr>] [],
        1 := add_node ''n1''
               [\<lparr>var = ''a'', binding = Scalar (IntV 3)\<rparr>,
                \<lparr>var = ''b'',
                 binding = Promise (NodeOutput 0 (FlyteLiteralType Integer) ''sum'')\<rparr>] [0])"

definition unnamed_heap :: "addr \<Rightarrow> sdk_node" where
  "unnamed_heap =
     heap (snd (PythonTask_call add_task [] [(''a'', IntV 1), (''b'', IntV 2)] compiling_state))"

text \<open>
  Wire templates over given wire nodes, and the wire form of a node made from the task
  \<^verbatim>\<open>add\<close>. In \<open>chain_wire_template\<close>, the wire form of the workflow over the two nodes
  of \<open>chain_heap\<close>, the node \<open>n1\<close> declares the upstream id \<open>n0\<close>; in
  \<open>dangling_template\<close>, which has the two system nodes as well, it declares an
  upstream id that no node of the template has.
\<close>

definition template_of_nodes :: "model_node list \<Rightarrow> model_template" where
  "template_of_nodes ns =
     \<lparr>t_id = \<lparr>resource_type = WORKFLOW, project = ''p'', domain = ''d'',
               ident_name = ''wf'', version = ''1''\<rparr>,
      t_metadata = WorkflowMetadata,
      t_metadata_defaults = WorkflowMetadataDefaults,
      t_interface = empty_interface,
      t_nodes = ns,
      t_outputs = []\<rparr>"

definition add_wire_node :: "string \<Rightarrow> binding list \<Rightarrow> string list \<Rightarrow> model_node" where
  "add_wire_node i bs ups =
     \<lparr>m_id = i,
      m_metadata = \<lparr>node_name = [], node_timeout = 0, node_retries = RetryStrategy 0,
                    node_interruptible = None\<rparr>,
      m_inputs = bs, m_upstream_node_ids = ups,
      m_task_node = Some \<lparr>reference_id = task_id add_task\<rparr>,
      m_workflow_node = None, m_branch_node = None\<rparr>"

definition chain_wire_template :: model_template where
  "chain_wire_template =
     template_of_nodes
       [add_wire_node ''n0''
          [\<lparr>var = ''a'', binding = Scalar (IntV 1)\<rparr>,
           \<lparr>var = ''b'', binding = Scalar (IntV 2)\<rparr>] [],
        add_wire_node ''n1''
          [\<lparr>var = ''a'', binding = Scalar (IntV 3)\<rparr>,
           \<lparr>var = ''b'', binding = OutputReference ''n0'' ''sum''\<rparr>] [''n0'']]"

definition dangling_template :: model_template where
  "dangling_template =
     template_of_nodes
       [add_wire_node START_NODE_ID [] [], add_wire_node ''n1'' [] [''n0''],
        add_wire_node END_NODE_ID [] []]"

text \<open>
  One way of finding the executable of a wire node: the task of a task node is looked
  up in \<^verbatim>\<open>tasks\<close> by its identifier; a task that is not there, and a node that is no
  task node, is an error. \<open>add_tasks\<close> is the dictionary that holds the task
  \<^verbatim>\<open>add\<close>.
\<close>

definition lookup_task ::
  "(identifier_model \<times> model_template) list \<Rightarrow> (identifier_model option \<times> python_task) list
     \<Rightarrow> model_node \<Rightarrow> error + executable option" where
  "lookup_task sub_workflows tasks n =
     (case m_task_node n of
        None \<Rightarrow> Inl FlyteSystemException
      | Some t \<Rightarrow>
          (case map_of tasks (reference_id t) of
             None \<Rightarrow> Inl (RemoteError ''task not found'')
           | Some task \<Rightarrow> Inr (Some (PythonTaskExe task))))"

definition add_tasks :: "(identifier_model option \<times> python_task) list" where
  "add_tasks = [(task_id add_task, add_task)]"

text \<open>
  \<^verbatim>\<open>@task(outputs=["x", "x"]) def dup(a: int, b: int) -> (int, str)\<close>: the same output
  name declared twice.
\<close>

definition dup_fn :: task_fn where
  "dup_fn =
     \<lparr>annotations = [(''a'', PyInt), (''b'', PyInt), (''return'', PyTuple [PyInt, PyStr])],
      call = (\<lambda>args kwargs. Inr (TupleV [IntV 0, StrV []]))\<rparr>"

definition dup_task :: python_task where
  "dup_task = projr (task_wrapper (default_options\<lparr>opt_outputs := Some [''x'', ''x'']\<rparr>) dup_fn)"


section \<open>Auxiliary facts\<close>

subsection \<open>Keys of the dictionaries the interface builder makes\<close>

lemma keys_update: "fst ` set (AList.update k v al) = insert k (fst ` set al)"
  by (induction al) auto

lemma get_variable_map_loop_keys:
  "get_variable_map_loop res kvs = Inr m \<Longrightarrow> fst ` set m = fst ` set res \<union> fst ` set kvs"
proof (induction kvs arbitrary: res)
  case Nil
  then show ?case by simp
next
  case (Cons kv kvs)
  obtain k v where kv: "kv = (k, v)" by (cases kv)
  from Cons.prems kv obtain t where t: "SIMPLE_TYPE_LOOKUP_TABLE v = Some t"
    by (cases "SIMPLE_TYPE_LOOKUP_TABLE v") auto
  with Cons.prems kv
  have "get_variable_map_loop (AList.update k \<lparr>var_type = t, description = k\<rparr> res) kvs = Inr m"
    by simp
  from Cons.IH [OF this] kv show ?case
    by (auto simp: keys_update)
qed

lemma dict_keys_from:
  "fst ` set (foldl (\<lambda>d kv. AList.update (fst kv) (snd kv) d) d0 kvs)
     = fst ` set d0 \<union> fst ` set kvs"
  by (induction kvs arbitrary: d0) (auto simp: keys_update)

lemma dict_keys: "fst ` set (dict kvs) = fst ` set kvs"
  by (simp add: dict_def dict_keys_from)

lemma zip_keys: "length ns = length ts \<Longrightarrow> fst ` set (zip ns ts) = set ns"
  by (induction ns ts rule: list_induct2) auto

lemma interface_output_names:
  assumes "get_interface_from_task_info ann outs = Inr iface"
  shows "fst ` set (outputs iface) = set outs"
proof -
  from assms obtain r where r: "map_of ann ''return'' = Some r"
    by (cases "map_of ann ''return''") (auto simp: get_interface_from_task_info_def split: if_splits)
  let ?ts = "case r of PyTuple ts \<Rightarrow> ts | _ \<Rightarrow> [r]"
  from assms r have len: "length outs = length ?ts"
    by (auto simp: get_interface_from_task_info_def Let_def split: if_splits)
  from assms r len obtain om where om: "get_variable_map_from_lists outs ?ts = Inr om"
    and io: "outputs iface = om"
    by (auto simp: get_interface_from_task_info_def Let_def
        split: if_splits sum.splits option.splits)
  from om have "fst ` set om = fst ` set (dict (zip outs ?ts))"
    using get_variable_map_loop_keys [of "[]" "dict (zip outs ?ts)" om]
    by (simp add: get_variable_map_from_lists_def get_variable_map_def)
  with io len show ?thesis by (simp add: dict_keys zip_keys)
qed

lemma interface_without_outputs:
  assumes "get_interface_from_task_info ann [] = Inr iface"
  shows "outputs iface = []"
  using assms
  by (auto simp: get_interface_from_task_info_def Let_def get_variable_map_from_lists_def
      get_variable_map_def dict_def split: if_splits option.splits sum.splits)

lemma task_wrapper_fields:
  assumes "task_wrapper opts fn = Inr t"
  shows "task_outputs t = opt_outputs opts"
    and "get_interface_from_task_info (annotations fn)
           (case opt_outputs opts of None \<Rightarrow> [] | Some names \<Rightarrow> names) = Inr (interface t)"
  using assms by (auto simp: task_wrapper_def Let_def split: sum.splits)

subsection \<open>Output handles\<close>

lemma wrapped_nodes_ok:
  "set ns \<subseteq> fst ` set om \<Longrightarrow>
   \<exists>hs. wrapped_nodes (om, a) ns = Inr hs \<and> map output_var hs = ns
        \<and> (\<forall>h\<in>set hs. sdk_node h = a)"
proof (induction ns)
  case Nil
  then show ?case by simp
next
  case (Cons n ns)
  then obtain hs where hs: "wrapped_nodes (om, a) ns = Inr hs" "map output_var hs = ns"
    "\<forall>h\<in>set hs. sdk_node h = a" by auto
  from Cons.prems have "n \<in> fst ` set om" by simp
  then obtain v where "map_of om n = Some v"
    by (metis domIff dom_map_of_conv_image_fst not_Some_eq)
  with hs show ?case
    by (simp add: OutputParameterMapper_getitem_def)
qed

subsection \<open>The binding resolver and the sorting of its result\<close>

lemma create_bindings_vars:
  "create_bindings_for_inputs iface kwargs = Inr (bs, ups) \<Longrightarrow>
   bs = map (\<lambda>kv. \<lparr>var = fst kv,
                    binding = (case snd kv of NodeOutputV out \<Rightarrow> Promise out | v \<Rightarrow> Scalar v)\<rparr>) kwargs
   \<and> (\<forall>k\<in>fst ` set kwargs. map_of (inputs iface) k \<noteq> None)"
proof (induction kwargs arbitrary: bs ups)
  case Nil
  then show ?case by simp
next
  case (Cons kv kwargs)
  obtain k v where kv: "kv = (k, v)" by (cases kv)
  from Cons.prems kv have known: "map_of (inputs iface) k \<noteq> None"
    by (auto split: if_splits)
  from Cons.prems kv known obtain bs0 ups0
    where rest: "create_bindings_for_inputs iface kwargs = Inr (bs0, ups0)"
    by (cases "create_bindings_for_inputs iface kwargs") auto
  from Cons.IH [OF rest] Cons.prems kv known rest show ?case
    by (cases v) auto
qed

lemma create_bindings_total:
  "\<forall>k\<in>fst ` set kwargs. map_of (inputs iface) k \<noteq> None \<Longrightarrow>
   \<exists>bs ups. create_bindings_for_inputs iface kwargs = Inr (bs, ups)"
proof (induction kwargs)
  case Nil
  then show ?case by simp
next
  case (Cons kv kwargs)
  obtain k v where kv: "kv = (k, v)" by (cases kv)
  from Cons obtain bs ups where "create_bindings_for_inputs iface kwargs = Inr (bs, ups)"
    by auto
  with Cons.prems kv show ?case
    by (cases v) auto
qed

lemma singleton_filter:
  "distinct (map f xs) \<Longrightarrow> x \<in> set xs \<Longrightarrow> filter (\<lambda>y. f x = f y) xs = [x]"
proof (induction xs)
  case Nil
  then show ?case by simp
next
  case (Cons a xs)
  show ?case
  proof (cases "x = a")
    case True
    with Cons.prems have "\<forall>y\<in>set xs. f a \<noteq> f y" by auto
    then have "filter (\<lambda>y. f a = f y) xs = []" by (simp add: filter_empty_conv)
    with True show ?thesis by simp
  next
    case False
    with Cons.prems have xin: "x \<in> set xs" by simp
    from Cons.prems have "f a \<notin> f ` set xs" by simp
    with xin have "f x \<noteq> f a" by (metis image_eqI)
    with xin Cons show ?thesis by simp
  qed
qed

lemma sort_key_reordered:
  fixes f :: "'a \<Rightarrow> 'k::linorder"
  assumes "mset ys = mset xs" "distinct (map f xs)"
  shows "sort_key f ys = sort_key f xs"
proof (rule sym, rule properties_for_sort_key)
  show "mset (sort_key f ys) = mset xs" using assms by simp
  show "sorted (map f (sort_key f ys))" by simp
  fix k assume k: "k \<in> set (sort_key f ys)"
  from assms have "mset (map f ys) = mset (map f xs)" by simp
  with assms(2) have dy: "distinct (map f ys)"
    by (metis mset_eq_imp_distinct_iff)
  from k have ky: "k \<in> set ys" by simp
  with assms(1) have kx: "k \<in> set xs" by (metis mset_eq_setD)
  have "filter (\<lambda>x. f k = f x) (sort_key f ys) = filter (\<lambda>x. f k = f x) ys"
    using sort_key_stable [of f "f k" ys] by (simp add: eq_commute)
  then show "filter (\<lambda>x. f k = f x) (sort_key f ys) = filter (\<lambda>x. f k = f x) xs"
    using singleton_filter [OF dy ky] singleton_filter [OF assms(2) kx] by simp
qed

lemma resolved_reordered:
  assumes d: "distinct (map fst kwargs)" and p: "mset kwargs' = mset kwargs"
    and r: "create_bindings_for_inputs iface kwargs = Inr (bs, ups)"
  shows "\<exists>bs' ups'. create_bindings_for_inputs iface kwargs' = Inr (bs', ups')
           \<and> sort_key var bs' = sort_key var bs"
proof -
  let ?g = "\<lambda>kv. \<lparr>var = fst kv,
                   binding = (case snd kv of NodeOutputV out \<Rightarrow> Promise out | v \<Rightarrow> Scalar v)\<rparr>"
  from create_bindings_vars [OF r]
  have bs: "bs = map ?g kwargs" and known: "\<forall>k\<in>fst ` set kwargs. map_of (inputs iface) k \<noteq> None"
    by simp_all
  from p have "set kwargs' = set kwargs" by (metis mset_eq_setD)
  with known have "\<forall>k\<in>fst ` set kwargs'. map_of (inputs iface) k \<noteq> None" by simp
  from create_bindings_total [OF this] obtain bs' ups'
    where r': "create_bindings_for_inputs iface kwargs' = Inr (bs', ups')" by blast
  from create_bindings_vars [OF r'] have bs': "bs' = map ?g kwargs'" by simp
  have "map var bs = map fst kwargs" by (simp add: bs)
  with d have "distinct (map var bs)" by simp
  moreover from p bs bs' have "mset bs' = mset bs" by simp
  ultimately have "sort_key var bs' = sort_key var bs" by (rule sort_key_reordered [rotated])
  with r' show ?thesis by blast
qed

lemma PythonTask_call_node:
  assumes "CONFIGURATION_SINGLETON_x s = 1"
    and "create_bindings_for_inputs (interface t) kwargs = Inr (bs, ups)"
  shows "heap (snd (PythonTask_call t [] kwargs s)) (next_addr s)
           = SdkNode None
               \<lparr>node_name = [], node_timeout = timeout (metadata t),
                node_retries = retries (metadata t),
                node_interruptible = interruptible (metadata t)\<rparr>
               (sort_key var bs) ups (PythonTaskExe t)"
  using assms
  by (auto simp: PythonTask_call_def alloc_def Let_def
      split: option.splits sum.splits list.splits)

lemma SdkWorkflow_call_node:
  assumes "create_bindings_for_inputs (wf_interface w) kwargs = Inr (bs, ups)"
  shows "heap (snd (SdkWorkflow_call w [] kwargs s)) (next_addr s)
           = SdkNode None
               \<lparr>node_name = ''placeholder'', node_timeout = 0,
                node_retries = RetryStrategy 0, node_interruptible = Some False\<rparr>
               (sort_key var bs) ups (SdkWorkflowExe w)"
  using assms
  by (auto simp: SdkWorkflow_call_def alloc_def)

lemma bindings_SdkNode: "bindings (SdkNode i md bs ups exe) = bs"
  by (simp add: SdkNode_def)


section \<open>The interface builder rejects mismatched output declarations\<close>

text \<open>
  Claim C8. \<^verbatim>\<open>get_interface_from_task_info\<close> fails with the plain exception of a schema
  mismatch whenever there is no return annotation although output names are declared,
  and whenever the number of output names differs from the number of return types, a
  single annotation that is no tuple counting as one type. In particular two output
  names against one annotation that is no tuple fail.
\<close>

theorem interface_schema_mismatch:
  "(map_of task_annotations ''return'' = None \<and> output_names \<noteq> [] \<longrightarrow>
      get_interface_from_task_info task_annotations output_names
        = Inl (Exception ''1fkdsa39mlsda''))
   \<and> (\<forall>r. map_of task_annotations ''return'' = Some r
            \<and> length output_names \<noteq> length (case r of PyTuple ts \<Rightarrow> ts | _ \<Rightarrow> [r]) \<longrightarrow>
      get_interface_from_task_info task_annotations output_names
        = Inl (Exception ''Output length mismatch''))
   \<and> (\<forall>r x y. map_of task_annotations ''return'' = Some r \<and> (\<forall>ts. r \<noteq> PyTuple ts) \<longrightarrow>
      get_interface_from_task_info task_annotations [x, y]
        = Inl (Exception ''Output length mismatch''))"
proof (intro conjI allI impI)
  assume "map_of task_annotations ''return'' = None \<and> output_names \<noteq> []"
  then show "get_interface_from_task_info task_annotations output_names
               = Inl (Exception ''1fkdsa39mlsda'')"
    by (simp add: get_interface_from_task_info_def)
next
  fix r
  assume "map_of task_annotations ''return'' = Some r
            \<and> length output_names \<noteq> length (case r of PyTuple ts \<Rightarrow> ts | _ \<Rightarrow> [r])"
  then show "get_interface_from_task_info task_annotations output_names
               = Inl (Exception ''Output length mismatch'')"
    by (simp add: get_interface_from_task_info_def)
next
  fix r x y
  assume a: "map_of task_annotations ''return'' = Some r \<and> (\<forall>ts. r \<noteq> PyTuple ts)"
  then have "(case r of PyTuple ts \<Rightarrow> ts | _ \<Rightarrow> [r]) = [r]"
    by (cases r) simp_all
  with a show "get_interface_from_task_info task_annotations [x, y]
                 = Inl (Exception ''Output length mismatch'')"
    by (simp add: get_interface_from_task_info_def)
qed

theorem interface_schema_mismatch_witness:
  "map_of [(''a'', PyInt)] ''return'' = None \<and> [''x''] \<noteq> []
   \<and> get_interface_from_task_info [(''a'', PyInt)] [''x''] = Inl (Exception ''1fkdsa39mlsda'')
   \<and> map_of [(''a'', PyInt), (''return'', PyTuple [PyInt, PyStr])] ''return''
       = Some (PyTuple [PyInt, PyStr])
   \<and> length [''x''] \<noteq> length [PyInt, PyStr]
   \<and> get_interface_from_task_info [(''a'', PyInt), (''return'', PyTuple [PyInt, PyStr])] [''x'']
       = Inl (Exception ''Output length mismatch'')
   \<and> map_of [(''a'', PyInt), (''return'', PyInt)] ''return'' = Some PyInt
   \<and> get_interface_from_task_info [(''a'', PyInt), (''return'', PyInt)] [''x'', ''y'']
       = Inl (Exception ''Output length mismatch'')"
proof -
  have none: "get_interface_from_task_info [(''a'', PyInt)] [''x'']
                = Inl (Exception ''1fkdsa39mlsda'')"
    using interface_schema_mismatch [of "[(''a'', PyInt)]" "[''x'']"] by simp
  have tuple: "get_interface_from_task_info
                 [(''a'', PyInt), (''return'', PyTuple [PyInt, PyStr])] [''x'']
                = Inl (Exception ''Output length mismatch'')"
    using interface_schema_mismatch
            [of "[(''a'', PyInt), (''return'', PyTuple [PyInt, PyStr])]" "[''x'']"]
    by simp
  have single: "get_interface_from_task_info [(''a'', PyInt), (''return'', PyInt)] [''x'', ''y'']
                = Inl (Exception ''Output length mismatch'')"
    using interface_schema_mismatch [of "[(''a'', PyInt), (''return'', PyInt)]" "[]"]
    by simp
  from none tuple single show ?thesis by simp
qed

section \<open>Output handles of a task invoked in compile mode\<close>

subsection \<open>A name declared twice\<close>

lemma dup_built:
  "task_wrapper (default_options\<lparr>opt_outputs := Some [''x'', ''x'']\<rparr>) dup_fn = Inr dup_task"
  by (simp add: dup_task_def task_wrapper_def get_interface_from_task_info_def dup_fn_def
      get_variable_map_def get_variable_map_from_lists_def dict_def default_options_def)

lemma dup_fields:
  "interface dup_task =
     \<lparr>inputs = [(''a'', \<lparr>var_type = FlyteLiteralType Integer, description = ''a''\<rparr>),
                (''b'', \<lparr>var_type = FlyteLiteralType Integer, description = ''b''\<rparr>)],
      outputs = [(''x'', \<lparr>var_type = FlyteLiteralType String, description = ''x''\<rparr>)]\<rparr>"
  "task_outputs dup_task = Some [''x'', ''x'']"
  by (simp_all add: dup_task_def task_wrapper_def get_interface_from_task_info_def dup_fn_def
      get_variable_map_def get_variable_map_from_lists_def dict_def default_options_def)

text \<open>
  Claim C1, as stated, fails: the handles need not carry distinct names. Nothing
  keeps a name from being declared twice: \<^verbatim>\<open>outputs=["x", "x"]\<close> against the return
  annotation \<^verbatim>\<open>(int, str)\<close> passes the comparison of the two lengths, \<^verbatim>\<open>dict(zip(...))\<close>
  keeps one output \<^verbatim>\<open>x\<close>, of the second type, and the invocation in compile mode
  subscripts the mapper with \<^verbatim>\<open>x\<close> twice: it returns a tuple of two handles with the
  same node, the same type and the same name.
\<close>

theorem task_call_repeated_output_name:
  "task_wrapper (default_options\<lparr>opt_outputs := Some [''x'', ''x'']\<rparr>) dup_fn = Inr dup_task
   \<and> task_outputs dup_task = Some [''x'', ''x'']
   \<and> CONFIGURATION_SINGLETON_x compiling_state = 1
   \<and> fst (PythonTask_call dup_task [] [(''a'', IntV 1), (''b'', IntV 2)] compiling_state)
       = Inr (TupleV [NodeOutputV (NodeOutput 0 (FlyteLiteralType String) ''x''),
                      NodeOutputV (NodeOutput 0 (FlyteLiteralType String) ''x'')])"
  by (simp add: dup_built dup_fields PythonTask_call_def compiling_state_def alloc_def
      OutputParameterMapper_getitem_def)

subsection \<open>The handles follow the declared names\<close>

text \<open>
  Claim C1, amended. A task built by the decorator with \<open>N\<close> declared output names is
  invoked in compile mode, by keyword, with arguments the resolver accepts. If \<open>N > 1\<close>
  the call returns a tuple of exactly \<open>N\<close> output handles, every one of them referencing
  the one node this call has made, the \<open>i\<close>-th tagged with the \<open>i\<close>-th declared name;
  the handles are pairwise distinct when the declared names are. If \<open>N = 1\<close> it
  returns a single handle, which is no tuple. The node has no id, the sorted bindings
  and the upstream nodes of the resolver.
\<close>

theorem task_call_output_handles:
  assumes built: "task_wrapper opts fn = Inr t"
    and outs: "opt_outputs opts = Some outs"
    and compile: "CONFIGURATION_SINGLETON_x s = 1"
    and resolved: "create_bindings_for_inputs (interface t) kwargs = Inr (bs, ups)"
  shows "(1 < length outs \<longrightarrow>
            (\<exists>hs s'. PythonTask_call t [] kwargs s = (Inr (TupleV (map NodeOutputV hs)), s')
                \<and> length hs = length outs
                \<and> map output_var hs = outs
                \<and> (\<forall>h\<in>set hs. sdk_node h = next_addr s)
                \<and> (distinct outs \<longrightarrow> distinct hs)))
         \<and> (length outs = 1 \<longrightarrow>
            (\<exists>h s'. PythonTask_call t [] kwargs s = (Inr (NodeOutputV h), s')
                \<and> output_var h = hd outs \<and> sdk_node h = next_addr s
                \<and> (\<forall>vs. NodeOutputV h \<noteq> TupleV vs)))
         \<and> next_addr (snd (PythonTask_call t [] kwargs s)) = Suc (next_addr s)
         \<and> node_id (heap (snd (PythonTask_call t [] kwargs s)) (next_addr s)) = None
         \<and> bindings (heap (snd (PythonTask_call t [] kwargs s)) (next_addr s)) = sort_key var bs
         \<and> upstream_nodes (heap (snd (PythonTask_call t [] kwargs s)) (next_addr s)) = ups"
proof -
  from built outs have to: "task_outputs t = Some outs"
    and iface: "get_interface_from_task_info (annotations fn) outs = Inr (interface t)"
    using task_wrapper_fields [OF built] by simp_all
  have names: "set outs \<subseteq> fst ` set (outputs (interface t))"
    using interface_output_names [OF iface] by simp
  from wrapped_nodes_ok [OF names, of "next_addr s"]
  obtain hs where hs: "wrapped_nodes (outputs (interface t), next_addr s) outs = Inr hs"
    "map output_var hs = outs" "\<forall>h\<in>set hs. sdk_node h = next_addr s" by blast
  from hs(2) have len: "length hs = length outs" by (metis length_map)
  from hs(2) have dist: "distinct outs \<longrightarrow> distinct hs" by (metis distinct_map)
  have many: "1 < length outs \<longrightarrow>
            (\<exists>hs s'. PythonTask_call t [] kwargs s = (Inr (TupleV (map NodeOutputV hs)), s')
                \<and> length hs = length outs
                \<and> map output_var hs = outs
                \<and> (\<forall>h\<in>set hs. sdk_node h = next_addr s)
                \<and> (distinct outs \<longrightarrow> distinct hs))"
  proof
    assume "1 < length outs"
    with compile resolved to hs(1)
    have "PythonTask_call t [] kwargs s
            = (Inr (TupleV (map NodeOutputV hs)), snd (PythonTask_call t [] kwargs s))"
      by (simp add: PythonTask_call_def alloc_def)
    with hs len dist show "\<exists>hs s'. PythonTask_call t [] kwargs s = (Inr (TupleV (map NodeOutputV hs)), s')
                \<and> length hs = length outs
                \<and> map output_var hs = outs
                \<and> (\<forall>h\<in>set hs. sdk_node h = next_addr s)
                \<and> (distinct outs \<longrightarrow> distinct hs)"
      by blast
  qed
  have one: "length outs = 1 \<longrightarrow>
            (\<exists>h s'. PythonTask_call t [] kwargs s = (Inr (NodeOutputV h), s')
                \<and> output_var h = hd outs \<and> sdk_node h = next_addr s
                \<and> (\<forall>vs. NodeOutputV h \<noteq> TupleV vs))"
  proof
    assume "length outs = 1"
    then obtain n where n: "outs = [n]"
      by (cases outs) auto
    with hs obtain h where h: "hs = [h]" "output_var h = n" "sdk_node h = next_addr s"
      by (cases hs) auto
    from hs(1) n h
    have "OutputParameterMapper_getitem (outputs (interface t), next_addr s) n = Inr h"
      by (auto split: sum.splits)
    with compile resolved to n
    have "PythonTask_call t [] kwargs s
            = (Inr (NodeOutputV h), snd (PythonTask_call t [] kwargs s))"
      by (simp add: PythonTask_call_def alloc_def)
    with h n show "\<exists>h s'. PythonTask_call t [] kwargs s = (Inr (NodeOutputV h), s')
                \<and> output_var h = hd outs \<and> sdk_node h = next_addr s
                \<and> (\<forall>vs. NodeOutputV h \<noteq> TupleV vs)"
      by auto
  qed
  have nxt: "next_addr (snd (PythonTask_call t [] kwargs s)) = Suc (next_addr s)"
    using compile resolved
    by (auto simp: PythonTask_call_def alloc_def Let_def
        split: option.splits sum.splits list.splits)
  have node: "node_id (heap (snd (PythonTask_call t [] kwargs s)) (next_addr s)) = None"
    "bindings (heap (snd (PythonTask_call t [] kwargs s)) (next_addr s)) = sort_key var bs"
    "upstream_nodes (heap (snd (PythonTask_call t [] kwargs s)) (next_addr s)) = ups"
    by (simp_all add: PythonTask_call_node [OF compile resolved] SdkNode_def)
  from many one nxt node show ?thesis by blast
qed

theorem task_call_output_handles_witness:
  "(\<exists>hs s'. PythonTask_call two_task [] [(''b'', IntV 3), (''a'', IntV 1)] compiling_state
               = (Inr (TupleV (map NodeOutputV hs)), s')
        \<and> map output_var hs = [''x'', ''y'']
        \<and> (\<forall>h\<in>set hs. sdk_node h = 0) \<and> distinct hs)
   \<and> (\<exists>h s'. PythonTask_call add_task []
                 [(''a'', IntV 3), (''b'', NodeOutputV (NodeOutput 0 (FlyteLiteralType Integer) ''o''))]
                 one_node_state
               = (Inr (NodeOutputV h), s')
        \<and> output_var h = ''sum'' \<and> sdk_node h = 1)
   \<and> map var (bindings (heap (snd (PythonTask_call add_task []
                 [(''a'', IntV 3), (''b'', NodeOutputV (NodeOutput 0 (FlyteLiteralType Integer) ''o''))]
                 one_node_state)) 1)) = [''a'', ''b'']
   \<and> upstream_nodes (heap (snd (PythonTask_call add_task []
                 [(''a'', IntV 3), (''b'', NodeOutputV (NodeOutput 0 (FlyteLiteralType Integer) ''o''))]
                 one_node_state)) 1) = [0]"
proof -
  have two: "task_wrapper (default_options\<lparr>opt_outputs := Some [''x'', ''y'']\<rparr>) two_fn = Inr two_task"
    by (simp add: two_task_def task_wrapper_def get_interface_from_task_info_def two_fn_def
        get_variable_map_def get_variable_map_from_lists_def dict_def default_options_def)
  have two_iface: "inputs (interface two_task)
      = [(''a'', \<lparr>var_type = FlyteLiteralType Integer, description = ''a''\<rparr>),
         (''b'', \<lparr>var_type = FlyteLiteralType Integer, description = ''b''\<rparr>)]"
    by (simp add: two_task_def task_wrapper_def get_interface_from_task_info_def two_fn_def
        get_variable_map_def get_variable_map_from_lists_def dict_def default_options_def)
  have two_res: "create_bindings_for_inputs (interface two_task) [(''b'', IntV 3), (''a'', IntV 1)]
      = Inr ([\<lparr>var = ''b'', binding = Scalar (IntV 3)\<rparr>, \<lparr>var = ''a'', binding = Scalar (IntV 1)\<rparr>], [])"
    by (simp add: two_iface)
  have add: "task_wrapper (default_options\<lparr>opt_outputs := Some [''sum'']\<rparr>) add_fn = Inr add_task"
    by (simp add: add_task_def task_wrapper_def get_interface_from_task_info_def add_fn_def
        get_variable_map_def get_variable_map_from_lists_def dict_def default_options_def)
  have add_iface: "inputs (interface add_task)
      = [(''a'', \<lparr>var_type = FlyteLiteralType Integer, description = ''a''\<rparr>),
         (''b'', \<lparr>var_type = FlyteLiteralType Integer, description = ''b''\<rparr>)]"
    by (simp add: add_task_def task_wrapper_def get_interface_from_task_info_def add_fn_def
        get_variable_map_def get_variable_map_from_lists_def dict_def default_options_def)
  have add_res: "create_bindings_for_inputs (interface add_task)
        [(''a'', IntV 3), (''b'', NodeOutputV (NodeOutput 0 (FlyteLiteralType Integer) ''o''))]
      = Inr ([\<lparr>var = ''a'', binding = Scalar (IntV 3)\<rparr>,
              \<lparr>var = ''b'', binding = Promise (NodeOutput 0 (FlyteLiteralType Integer) ''o'')\<rparr>], [0])"
    by (simp add: add_iface)
  have c0: "CONFIGURATION_SINGLETON_x compiling_state = 1" by (simp add: compiling_state_def)
  have c1: "CONFIGURATION_SINGLETON_x one_node_state = 1" by (simp add: one_node_state_def)
  have n0: "next_addr compiling_state = 0" by (simp add: compiling_state_def)
  have n1: "next_addr one_node_state = 1" by (simp add: one_node_state_def)
  have o2: "opt_outputs (default_options\<lparr>opt_outputs := Some [''x'', ''y'']\<rparr>) = Some [''x'', ''y'']"
    by simp
  have o1: "opt_outputs (default_options\<lparr>opt_outputs := Some [''sum'']\<rparr>) = Some [''sum'']"
    by simp
  from task_call_output_handles [OF two o2 c0 two_res]
       task_call_output_handles [OF add o1 c1 add_res]
  show ?thesis
    by (auto simp: n0 n1)
qed

section \<open>The bindings of a node are sorted by variable name\<close>

text \<open>
  Claim C2. When a task (in compile mode) or a sub-workflow is invoked by keyword, the
  bindings stored on the node it makes are the resolved bindings sorted by variable
  name; so two orderings of the same keyword arguments (a Python dict has no key twice)
  give the same binding sequence on the node.
\<close>

theorem node_bindings_sorted_and_canonical:
  assumes d: "distinct (map fst kwargs)" and p: "mset kwargs' = mset kwargs"
  shows "(\<forall>bs ups. CONFIGURATION_SINGLETON_x s = 1
            \<and> create_bindings_for_inputs (interface t) kwargs = Inr (bs, ups) \<longrightarrow>
            sorted (map var (bindings (heap (snd (PythonTask_call t [] kwargs s)) (next_addr s))))
            \<and> mset (bindings (heap (snd (PythonTask_call t [] kwargs s)) (next_addr s))) = mset bs
            \<and> bindings (heap (snd (PythonTask_call t [] kwargs' s)) (next_addr s))
                = bindings (heap (snd (PythonTask_call t [] kwargs s)) (next_addr s)))
       \<and> (\<forall>bs ups. create_bindings_for_inputs (wf_interface w) kwargs = Inr (bs, ups) \<longrightarrow>
            sorted (map var (bindings (heap (snd (SdkWorkflow_call w [] kwargs s)) (next_addr s))))
            \<and> mset (bindings (heap (snd (SdkWorkflow_call w [] kwargs s)) (next_addr s))) = mset bs
            \<and> bindings (heap (snd (SdkWorkflow_call w [] kwargs' s)) (next_addr s))
                = bindings (heap (snd (SdkWorkflow_call w [] kwargs s)) (next_addr s)))"
proof (intro conjI allI impI)
  fix bs ups
  assume a: "CONFIGURATION_SINGLETON_x s = 1
               \<and> create_bindings_for_inputs (interface t) kwargs = Inr (bs, ups)"
  then have c: "CONFIGURATION_SINGLETON_x s = 1"
    and r: "create_bindings_for_inputs (interface t) kwargs = Inr (bs, ups)" by simp_all
  from resolved_reordered [OF d p r] obtain bs' ups'
    where r': "create_bindings_for_inputs (interface t) kwargs' = Inr (bs', ups')"
      and eq: "sort_key var bs' = sort_key var bs" by blast
  show "sorted (map var (bindings (heap (snd (PythonTask_call t [] kwargs s)) (next_addr s))))"
    by (simp add: PythonTask_call_node [OF c r] bindings_SdkNode)
  show "mset (bindings (heap (snd (PythonTask_call t [] kwargs s)) (next_addr s))) = mset bs"
    by (simp add: PythonTask_call_node [OF c r] bindings_SdkNode)
  show "bindings (heap (snd (PythonTask_call t [] kwargs' s)) (next_addr s))
          = bindings (heap (snd (PythonTask_call t [] kwargs s)) (next_addr s))"
    by (simp add: PythonTask_call_node [OF c r] PythonTask_call_node [OF c r'] bindings_SdkNode eq)
next
  fix bs ups
  assume r: "create_bindings_for_inputs (wf_interface w) kwargs = Inr (bs, ups)"
  from resolved_reordered [OF d p r] obtain bs' ups'
    where r': "create_bindings_for_inputs (wf_interface w) kwargs' = Inr (bs', ups')"
      and eq: "sort_key var bs' = sort_key var bs" by blast
  show "sorted (map var (bindings (heap (snd (SdkWorkflow_call w [] kwargs s)) (next_addr s))))"
    by (simp add: SdkWorkflow_call_node [OF r] bindings_SdkNode)
  show "mset (bindings (heap (snd (SdkWorkflow_call w [] kwargs s)) (next_addr s))) = mset bs"
    by (simp add: SdkWorkflow_call_node [OF r] bindings_SdkNode)
  show "bindings (heap (snd (SdkWorkflow_call w [] kwargs' s)) (next_addr s))
          = bindings (heap (snd (SdkWorkflow_call w [] kwargs s)) (next_addr s))"
    by (simp add: SdkWorkflow_call_node [OF r] SdkWorkflow_call_node [OF r'] bindings_SdkNode eq)
qed

theorem node_bindings_sorted_and_canonical_witness:
  "distinct (map fst [(''b'', IntV 3), (''a'', IntV 1)])
   \<and> mset [(''a'', IntV 1), (''b'', IntV 3)] = mset [(''b'', IntV 3), (''a'', IntV 1)]
   \<and> sorted (map var (bindings (heap (snd (PythonTask_call two_task []
                [(''b'', IntV 3), (''a'', IntV 1)] compiling_state)) 0)))
   \<and> bindings (heap (snd (PythonTask_call two_task []
                [(''a'', IntV 1), (''b'', IntV 3)] compiling_state)) 0)
       = bindings (heap (snd (PythonTask_call two_task []
                [(''b'', IntV 3), (''a'', IntV 1)] compiling_state)) 0)
   \<and> sorted (map var (bindings (heap (snd (SdkWorkflow_call inner_workflow []
                [(''b'', IntV 3), (''a'', IntV 1)] compiling_state)) 0)))
   \<and> bindings (heap (snd (SdkWorkflow_call inner_workflow []
                [(''a'', IntV 1), (''b'', IntV 3)] compiling_state)) 0)
       = bindings (heap (snd (SdkWorkflow_call inner_workflow []
                [(''b'', IntV 3), (''a'', IntV 1)] compiling_state)) 0)"
proof -
  have d: "distinct (map fst [(''b'', IntV 3), (''a'', IntV 1)])" by simp
  have p: "mset [(''a'', IntV 1), (''b'', IntV 3)] = mset [(''b'', IntV 3), (''a'', IntV 1)]"
    by simp
  have two_iface: "inputs (interface two_task)
      = [(''a'', \<lparr>var_type = FlyteLiteralType Integer, description = ''a''\<rparr>),
         (''b'', \<lparr>var_type = FlyteLiteralType Integer, description = ''b''\<rparr>)]"
    by (simp add: two_task_def task_wrapper_def get_interface_from_task_info_def two_fn_def
        get_variable_map_def get_variable_map_from_lists_def dict_def default_options_def)
  have r: "create_bindings_for_inputs (interface two_task) [(''b'', IntV 3), (''a'', IntV 1)]
      = Inr ([\<lparr>var = ''b'', binding = Scalar (IntV 3)\<rparr>, \<lparr>var = ''a'', binding = Scalar (IntV 1)\<rparr>], [])"
    by (simp add: two_iface)
  have rw: "create_bindings_for_inputs (wf_interface inner_workflow) [(''b'', IntV 3), (''a'', IntV 1)]
      = Inr ([\<lparr>var = ''b'', binding = Scalar (IntV 3)\<rparr>, \<lparr>var = ''a'', binding = Scalar (IntV 1)\<rparr>], [])"
    by (simp add: inner_workflow_def)
  have c0: "CONFIGURATION_SINGLETON_x compiling_state = 1" by (simp add: compiling_state_def)
  have n0: "next_addr compiling_state = 0" by (simp add: compiling_state_def)
  from node_bindings_sorted_and_canonical [OF d p, of compiling_state two_task inner_workflow]
       r rw c0 d p
  show ?thesis
    by (simp add: n0)
qed

section \<open>A task declared without outputs cannot be invoked in compile mode\<close>

text \<open>
  Claim C10. A task built by the decorator with \<^verbatim>\<open>outputs\<close> left at \<^verbatim>\<open>None\<close> keeps
  \<^verbatim>\<open>None\<close> as its output list although its interface is built from the empty list, and
  every invocation of it in compile mode ends in an error: when the arguments get as far
  as the node, the error is the \<^verbatim>\<open>TypeError\<close> of \<^verbatim>\<open>len(None)\<close>. A task declared with the
  empty list fails as well, so only a task with a non-empty list of declared outputs
  can be invoked in compile mode.
\<close>

theorem task_without_outputs_fails_in_compile_mode:
  assumes built: "task_wrapper opts fn = Inr t"
    and compile: "CONFIGURATION_SINGLETON_x s = 1"
  shows "(opt_outputs opts = None \<longrightarrow>
            task_outputs t = None \<and> outputs (interface t) = []
            \<and> (\<exists>e s'. PythonTask_call t args kwargs s = (Inl e, s'))
            \<and> (\<forall>bs ups. args = []
                  \<and> create_bindings_for_inputs (interface t) kwargs = Inr (bs, ups)
                  \<longrightarrow> fst (PythonTask_call t args kwargs s) = Inl TypeError))
         \<and> (opt_outputs opts = Some [] \<longrightarrow>
            (\<exists>e s'. PythonTask_call t args kwargs s = (Inl e, s')))"
proof (intro conjI impI)
  assume none: "opt_outputs opts = None"
  then have to: "task_outputs t = None"
    and iface: "get_interface_from_task_info (annotations fn) [] = Inr (interface t)"
    using task_wrapper_fields [OF built] by simp_all
  from to show "task_outputs t = None" .
  from interface_without_outputs [OF iface] show "outputs (interface t) = []" .
  show "\<exists>e s'. PythonTask_call t args kwargs s = (Inl e, s')"
    using compile to
    by (cases "create_bindings_for_inputs (interface t) kwargs")
       (auto simp: PythonTask_call_def alloc_def)
  show "\<forall>bs ups. args = [] \<and> create_bindings_for_inputs (interface t) kwargs = Inr (bs, ups)
               \<longrightarrow> fst (PythonTask_call t args kwargs s) = Inl TypeError"
    using compile to by (auto simp: PythonTask_call_def alloc_def)
next
  assume "opt_outputs opts = Some []"
  then have to: "task_outputs t = Some []"
    using task_wrapper_fields [OF built] by simp
  show "\<exists>e s'. PythonTask_call t args kwargs s = (Inl e, s')"
    using compile to
    by (cases "create_bindings_for_inputs (interface t) kwargs")
       (auto simp: PythonTask_call_def alloc_def)
qed

theorem task_without_outputs_fails_in_compile_mode_witness:
  "task_wrapper default_options nothing_fn = Inr nothing_task
   \<and> opt_outputs default_options = None
   \<and> task_outputs nothing_task = None
   \<and> outputs (interface nothing_task) = []
   \<and> fst (PythonTask_call nothing_task [] [(''a'', IntV 1)] compiling_state) = Inl TypeError
   \<and> (\<exists>e s'. PythonTask_call nothing_task [IntV 1] [] compiling_state = (Inl e, s'))
   \<and> task_wrapper (default_options\<lparr>opt_outputs := Some []\<rparr>) nothing_fn = Inr empty_task
   \<and> (\<exists>e s'. PythonTask_call empty_task [] [(''a'', IntV 1)] compiling_state = (Inl e, s'))"
proof -
  have built': "task_wrapper (default_options\<lparr>opt_outputs := Some []\<rparr>) nothing_fn = Inr empty_task"
    by (simp add: empty_task_def task_wrapper_def get_interface_from_task_info_def
        nothing_fn_def get_variable_map_def get_variable_map_from_lists_def dict_def
        default_options_def)
  have built: "task_wrapper default_options nothing_fn = Inr nothing_task"
    by (simp add: nothing_task_def task_wrapper_def get_interface_from_task_info_def
        nothing_fn_def get_variable_map_def get_variable_map_from_lists_def dict_def
        default_options_def)
  have none: "opt_outputs default_options = None" by (simp add: default_options_def)
  have iface: "inputs (interface nothing_task)
      = [(''a'', \<lparr>var_type = FlyteLiteralType Integer, description = ''a''\<rparr>)]"
    by (simp add: nothing_task_def task_wrapper_def get_interface_from_task_info_def
        nothing_fn_def get_variable_map_def get_variable_map_from_lists_def dict_def
        default_options_def)
  have r: "create_bindings_for_inputs (interface nothing_task) [(''a'', IntV 1)]
      = Inr ([\<lparr>var = ''a'', binding = Scalar (IntV 1)\<rparr>], [])"
    by (simp add: iface)
  have c0: "CONFIGURATION_SINGLETON_x compiling_state = 1" by (simp add: compiling_state_def)
  from task_without_outputs_fails_in_compile_mode
         [OF built c0, of "[]" "[(''a'', IntV 1)]"]
       task_without_outputs_fails_in_compile_mode
         [OF built c0, of "[IntV 1]" "[]"]
       task_without_outputs_fails_in_compile_mode
         [OF built' c0, of "[]" "[(''a'', IntV 1)]"]
       built built' none r
  show ?thesis by simp
qed

section \<open>The workflow decorator\<close>

lemma task_wrapper_examples:
  "task_wrapper (default_options\<lparr>opt_outputs := Some [''x'', ''y'']\<rparr>) two_fn = Inr two_task"
  "task_wrapper (default_options\<lparr>opt_outputs := Some [''sum'']\<rparr>) add_fn = Inr add_task"
  by (simp_all add: two_task_def add_task_def task_wrapper_def get_interface_from_task_info_def
      two_fn_def add_fn_def get_variable_map_def get_variable_map_from_lists_def dict_def
      default_options_def)

lemma example_interfaces:
  "interface two_task =
     \<lparr>inputs = [(''a'', \<lparr>var_type = FlyteLiteralType Integer, description = ''a''\<rparr>),
                (''b'', \<lparr>var_type = FlyteLiteralType Integer, description = ''b''\<rparr>)],
      outputs = [(''x'', \<lparr>var_type = FlyteLiteralType Integer, description = ''x''\<rparr>),
                 (''y'', \<lparr>var_type = FlyteLiteralType String, description = ''y''\<rparr>)]\<rparr>"
  "interface add_task =
     \<lparr>inputs = [(''a'', \<lparr>var_type = FlyteLiteralType Integer, description = ''a''\<rparr>),
                (''b'', \<lparr>var_type = FlyteLiteralType Integer, description = ''b''\<rparr>)],
      outputs = [(''sum'', \<lparr>var_type = FlyteLiteralType Integer, description = ''sum''\<rparr>)]\<rparr>"
  "task_outputs two_task = Some [''x'', ''y'']"
  "task_outputs add_task = Some [''sum'']"
  by (simp_all add: two_task_def add_task_def task_wrapper_def get_interface_from_task_info_def
      two_fn_def add_fn_def get_variable_map_def get_variable_map_from_lists_def dict_def
      default_options_def)

lemma example_bodies:
  "fst (wf_call one_output_workflow_fn [] (local_state\<lparr>CONFIGURATION_SINGLETON_x := 1\<rparr>))
     = Inr (WorkflowOutputsV [NodeOutputV (NodeOutput 0 (FlyteLiteralType Integer) ''sum'')])"
  "fst (wf_call two_output_workflow_fn [] (local_state\<lparr>CONFIGURATION_SINGLETON_x := 1\<rparr>))
     = Inr (WorkflowOutputsV [NodeOutputV (NodeOutput 0 (FlyteLiteralType Integer) ''x''),
                              NodeOutputV (NodeOutput 0 (FlyteLiteralType String) ''y'')])"
  by (simp_all add: one_output_workflow_fn_def two_output_workflow_fn_def local_state_def
      PythonTask_call_def example_interfaces alloc_def OutputParameterMapper_getitem_def
      WorkflowOutputs_def)

text \<open>
  When every returned expression is an output handle and names are declared, the loop
  fails exactly when there are more expressions than names left.
\<close>

lemma outputs_loop_handles:
  "\<forall>v\<in>set args. \<exists>h. v = NodeOutputV h \<Longrightarrow> i \<le> length names \<Longrightarrow>
   outputs_loop (Some names) i args
     = (if i + length args \<le> length names then Inr (i + length args) else Inl IndexError)"
proof (induction args arbitrary: i)
  case Nil
  then show ?case by simp
next
  case (Cons v args)
  then obtain h where h: "v = NodeOutputV h" by auto
  show ?case
  proof (cases "i < length names")
    case True
    with Cons have "outputs_loop (Some names) (i + 1) args
       = (if (i + 1) + length args \<le> length names then Inr ((i + 1) + length args)
          else Inl IndexError)"
      by simp
    with h True show ?thesis by auto
  next
    case False
    with h show ?thesis by simp
  qed
qed

lemma workflow_wrapper_restores_flag_on_success:
  "workflow_wrapper outs fn s = (Inr w, s') \<Longrightarrow>
   CONFIGURATION_SINGLETON_x s' = CONFIGURATION_SINGLETON_x s"
  by (auto simp: workflow_wrapper_def Let_def
      split: sum.splits prod.splits py_value.splits)

text \<open>
  Claim C3. The claim asks for a failure whenever the number of returned output
  expressions differs from the number of declared names. The wrapper only subscripts
  the names by the position of each returned expression, inside a logging call: two
  expressions against one name do fail (with \<^verbatim>\<open>IndexError\<close>), but one expression against
  two names is accepted and a workflow object comes back.
\<close>

theorem workflow_fewer_outputs_accepted:
  "fst (workflow_wrapper (Some [''a'', ''b'']) one_output_workflow_fn local_state)
     = Inr \<lparr>workflow_function = one_output_workflow_fn,
            workflow_id = Some \<lparr>resource_type = WORKFLOW, project = ''proj'', domain = ''dom'',
                                 ident_name = ''moreblah'', version = ''1''\<rparr>\<rparr>
   \<and> fst (workflow_wrapper (Some [''only_one'']) two_output_workflow_fn local_state)
     = Inl IndexError"
proof -
  have a: "wf_annotations one_output_workflow_fn = []" "wf_defaults one_output_workflow_fn = []"
    "wf_annotations two_output_workflow_fn = []" "wf_defaults two_output_workflow_fn = []"
    by (simp_all add: one_output_workflow_fn_def two_output_workflow_fn_def)
  show ?thesis
    using example_bodies
    by (simp add: workflow_wrapper_def a get_variable_map_def
        split_beta Let_def)
qed

text \<open>
  Claim C4. The claim asks for the compile flag to be, after every invocation of the
  wrapper, what it was before, also when the workflow body raises. The wrapper writes
  the saved value back in its last statement and has no \<^verbatim>\<open>finally\<close>: when the body
  raises with the flag at 0 before the call, the flag is left at 1.
\<close>

theorem workflow_flag_leaks_when_body_raises:
  "CONFIGURATION_SINGLETON_x local_state = 0
   \<and> fst (workflow_wrapper (Some []) raising_workflow_fn local_state) = Inl (UserError ''boom'')
   \<and> CONFIGURATION_SINGLETON_x (snd (workflow_wrapper (Some []) raising_workflow_fn local_state)) = 1"
  by (simp add: workflow_wrapper_def raising_workflow_fn_def local_state_def
      get_variable_map_def Let_def)

section \<open>The constructor of a workflow checks the ids of upstream nodes\<close>

lemma upstream_without_id_iff:
  "upstream_without_id h us \<longleftrightarrow> (\<exists>u\<in>set us. node_id (h u) = None)"
  by (induction us) auto

lemma nodes_with_upstream_without_id_iff:
  "nodes_with_upstream_without_id h ns
     \<longleftrightarrow> (\<exists>n\<in>set ns. \<exists>u\<in>set (upstream_nodes (h n)). node_id (h u) = None)"
  by (induction ns) (auto simp: upstream_without_id_iff)

text \<open>
  Claim C5. If some node handed to the constructor records an upstream node whose id is
  unresolved (\<^verbatim>\<open>None\<close>), construction fails with the assertion error and no workflow is
  produced; if every upstream node of every node has an id, the workflow is constructed,
  with the nodes, interface and output bindings given.
\<close>

theorem workflow_init_checks_upstream_ids:
  "((\<exists>n\<in>set nodes. \<exists>u\<in>set (upstream_nodes (h n)). node_id (h u) = None) \<longrightarrow>
      SdkWorkflow_init cfg h nodes iface output_bindings ident md md_defaults
        = Inl FlyteAssertion)
   \<and> ((\<forall>n\<in>set nodes. \<forall>u\<in>set (upstream_nodes (h n)). node_id (h u) \<noteq> None) \<longrightarrow>
      (\<exists>w. SdkWorkflow_init cfg h nodes iface output_bindings ident md md_defaults = Inr w
           \<and> wf_nodes w = nodes \<and> wf_interface w = iface
           \<and> wf_outputs w = output_bindings))"
  by (auto simp: SdkWorkflow_init_def nodes_with_upstream_without_id_iff)

theorem workflow_init_checks_upstream_ids_witness:
  "node_id (unnamed_upstream_heap 0) = None
   \<and> upstream_nodes (unnamed_upstream_heap 1) = [0]
   \<and> SdkWorkflow_init example_env unnamed_upstream_heap [0, 1] empty_interface [] None None None
       = Inl FlyteAssertion
   \<and> node_id (named_upstream_heap 0) = Some ''n0''
   \<and> upstream_nodes (named_upstream_heap 1) = [0]
   \<and> (\<exists>w. SdkWorkflow_init example_env named_upstream_heap [0, 1] empty_interface [] None None None
            = Inr w \<and> wf_nodes w = [0, 1])"
proof -
  have bad: "\<exists>n\<in>set [0, 1]. \<exists>u\<in>set (upstream_nodes (unnamed_upstream_heap n)).
       node_id (unnamed_upstream_heap u) = None"
    by (simp add: unnamed_upstream_heap_def no_node_def)
  have good: "\<forall>n\<in>set [0, 1]. \<forall>u\<in>set (upstream_nodes (named_upstream_heap n)).
       node_id (named_upstream_heap u) \<noteq> None"
    by (simp add: named_upstream_heap_def no_node_def)
  from workflow_init_checks_upstream_ids
         [of "[0, 1]" unnamed_upstream_heap example_env empty_interface "[]" None None None]
       workflow_init_checks_upstream_ids
         [of "[0, 1]" named_upstream_heap example_env empty_interface "[]" None None None]
       bad good
  have results:
    "SdkWorkflow_init example_env unnamed_upstream_heap [0, 1] empty_interface [] None None None
       = Inl FlyteAssertion"
    "\<exists>w. SdkWorkflow_init example_env named_upstream_heap [0, 1] empty_interface [] None None None
            = Inr w \<and> wf_nodes w = [0, 1]"
    by blast+
  have facts: "node_id (unnamed_upstream_heap 0) = None"
    "upstream_nodes (unnamed_upstream_heap 1) = [0]"
    "node_id (named_upstream_heap 0) = Some ''n0''"
    "upstream_nodes (named_upstream_heap 1) = [0]"
    by (simp_all add: unnamed_upstream_heap_def named_upstream_heap_def no_node_def)
  from results facts show ?thesis by blast
qed

section \<open>Registration\<close>

text \<open>
  Claim C7. \<^verbatim>\<open>register\<close> gets hold of the client, collects the sub-workflows and calls
  \<^verbatim>\<open>create_workflow\<close> once. If that call reports that the workflow already exists,
  \<^verbatim>\<open>register\<close> returns (Python's \<^verbatim>\<open>None\<close>) without raising. If it fails with any other
  error, the workflow has again the identifier it had before the call and that same
  error is raised. If it succeeds, the text of the new identifier is returned. In each
  case the remote side is what that one call of \<^verbatim>\<open>create_workflow\<close> left: there is no
  second call.
\<close>

theorem register_outcomes:
  assumes cl: "client_error cl = None"
    and idr: "id_to_register = \<lparr>resource_type = WORKFLOW, project = proj, domain = dmn,
                                 ident_name = nm, version = ver\<rparr>"
    and subs: "get_sub_workflows (recursion_limit cfg) h (self\<lparr>wf_id := id_to_register\<rparr>)
                 = Inr sub_workflows"
    and spec: "spec = \<lparr>spec_template = self\<lparr>wf_id := id_to_register\<rparr>,
                       spec_sub_workflows = sub_workflows\<rparr>"
  shows "(fst (create_workflow cl id_to_register spec remote)
            = Some FlyteEntityAlreadyExistsException \<longrightarrow>
            fst (register cfg cl h self proj dmn nm ver remote) = Inr None)
         \<and> (\<forall>e. fst (create_workflow cl id_to_register spec remote) = Some e
                \<and> e \<noteq> FlyteEntityAlreadyExistsException \<longrightarrow>
            fst (register cfg cl h self proj dmn nm ver remote) = Inl e
            \<and> fst (snd (register cfg cl h self proj dmn nm ver remote)) = self)
         \<and> (fst (create_workflow cl id_to_register spec remote) = None \<longrightarrow>
            fst (register cfg cl h self proj dmn nm ver remote)
              = Inr (Some (str_identifier id_to_register))
            \<and> wf_id (fst (snd (register cfg cl h self proj dmn nm ver remote)))
              = id_to_register)
         \<and> snd (snd (register cfg cl h self proj dmn nm ver remote))
             = snd (create_workflow cl id_to_register spec remote)"
  using assms
  by (cases "create_workflow cl id_to_register spec remote")
     (auto simp: register_def register_try_def Let_def split: option.splits)


theorem register_outcomes_witness:
  "fst (register example_env control_plane (\<lambda>a. no_node) inner_workflow
          ''p'' ''d'' ''wf'' ''1'' [])
     = Inr (Some ''wf:p:d:wf:1'')
   \<and> snd (snd (register example_env control_plane (\<lambda>a. no_node) inner_workflow
          ''p'' ''d'' ''wf'' ''1'' []))
     = [\<lparr>resource_type = WORKFLOW, project = ''p'', domain = ''d'', ident_name = ''wf'',
         version = ''1''\<rparr>]
   \<and> fst (register example_env control_plane (\<lambda>a. no_node) inner_workflow
          ''p'' ''d'' ''wf'' ''1''
          [\<lparr>resource_type = WORKFLOW, project = ''p'', domain = ''d'', ident_name = ''wf'',
            version = ''1''\<rparr>])
     = Inr None
   \<and> snd (snd (register example_env control_plane (\<lambda>a. no_node) inner_workflow
          ''p'' ''d'' ''wf'' ''1''
          [\<lparr>resource_type = WORKFLOW, project = ''p'', domain = ''d'', ident_name = ''wf'',
            version = ''1''\<rparr>]))
     = [\<lparr>resource_type = WORKFLOW, project = ''p'', domain = ''d'', ident_name = ''wf'',
         version = ''1''\<rparr>]
   \<and> fst (register example_env broken_control_plane (\<lambda>a. no_node) inner_workflow
          ''p'' ''d'' ''wf'' ''1'' [])
     = Inl (RemoteError ''unavailable'')
   \<and> fst (snd (register example_env broken_control_plane (\<lambda>a. no_node) inner_workflow
          ''p'' ''d'' ''wf'' ''1'' []))
     = inner_workflow"
proof -
  let ?i = "\<lparr>resource_type = WORKFLOW, project = ''p'', domain = ''d'', ident_name = ''wf'',
             version = ''1''\<rparr>"
  let ?spec = "\<lparr>spec_template = inner_workflow\<lparr>wf_id := ?i\<rparr>, spec_sub_workflows = []\<rparr>"
  have subs: "get_sub_workflows (recursion_limit example_env) (\<lambda>a. no_node)
                (inner_workflow\<lparr>wf_id := ?i\<rparr>) = Inr []"
    by (simp add: example_env_def inner_workflow_def eval_nat_numeral)
  have c: "client_error control_plane = None" "client_error broken_control_plane = None"
    by (simp_all add: control_plane_def broken_control_plane_def)
  have fresh: "create_workflow control_plane ?i ?spec [] = (None, [?i])"
    by (simp add: control_plane_def)
  have again: "create_workflow control_plane ?i ?spec [?i]
                 = (Some FlyteEntityAlreadyExistsException, [?i])"
    by (simp add: control_plane_def)
  have broken: "create_workflow broken_control_plane ?i ?spec []
                 = (Some (RemoteError ''unavailable''), [])"
    by (simp add: broken_control_plane_def)
  from register_outcomes [OF c(1) refl subs refl, of "[]"]
       register_outcomes [OF c(1) refl subs refl, of "[?i]"]
       register_outcomes [OF c(2) refl subs refl, of "[]"]
       fresh again broken
  show ?thesis
    by (simp add: str_identifier_def)
qed

lemma register_rolls_back_on_failure:
  "fst (register cfg cl h self proj dmn nm ver remote) = Inl e \<Longrightarrow>
   fst (snd (register cfg cl h self proj dmn nm ver remote)) = self
   \<and> e \<noteq> FlyteEntityAlreadyExistsException"
  by (auto simp: register_def Let_def split: prod.splits sum.splits if_splits)


section \<open>Promotion of a wire template\<close>

subsection \<open>The node map\<close>









lemma get_non_system_nodes_idem:
  "get_non_system_nodes (get_non_system_nodes ns) = get_non_system_nodes ns"
  by (simp add: get_non_system_nodes_def)


subsection \<open>The wiring loop looks nothing up\<close>





lemma promote_from_model_filters:
  "promote_from_model cfg resolve base_model sub_workflows tasks s
     = promote_from_model cfg resolve
         (base_model\<lparr>t_nodes := get_non_system_nodes (t_nodes base_model)\<rparr>)
         sub_workflows tasks s"
  by (auto simp: promote_from_model_def get_non_system_nodes_idem Let_def
      split: prod.splits option.splits sum.splits)

lemma dangling_nodes:
  "get_non_system_nodes (t_nodes dangling_template) = [add_wire_node ''n1'' [] [''n0'']]"
  by (simp add: get_non_system_nodes_def dangling_template_def template_of_nodes_def
      add_wire_node_def START_NODE_ID_def END_NODE_ID_def)

text \<open>
  The same happens to an upstream id that the template does have: in the template with
  the nodes \<open>n0\<close> and \<open>n1\<close>, where \<open>n1\<close> declares \<open>n0\<close>, the promoted node \<open>n1\<close> is
  left without upstream node.
\<close>

lemma promote_leaves_declared_upstream_out:
  "m_upstream_node_ids (t_nodes chain_wire_template ! 1) = [''n0'']
   \<and> fst (promote_from_model example_env lookup_task chain_wire_template None (Some add_tasks)
            compiling_state) = Inr (workflow_of_nodes [0, 1])
   \<and> node_id (heap (snd (promote_from_model example_env lookup_task chain_wire_template
                            None (Some add_tasks) compiling_state)) 1) = Some ''n1''
   \<and> upstream_nodes (heap (snd (promote_from_model example_env lookup_task
                                   chain_wire_template None (Some add_tasks)
                                   compiling_state)) 1) = []"
  by (simp add: promote_from_model_def get_non_system_nodes_def chain_wire_template_def
      template_of_nodes_def add_wire_node_def START_NODE_ID_def END_NODE_ID_def alloc_def
      compiling_state_def SdkNode_promote_from_model_def upstream_node_ids_def
      SdkWorkflow_init_def empty_interface_def lookup_task_def add_tasks_def
      workflow_of_nodes_def Let_def)

text \<open>
  Claim C6. The first half of the claim holds: the nodes with the reserved start and end
  ids are taken out before anything else happens, so that promoting a template is
  promoting the template without them (lemma \<open>promote_from_model_filters\<close>). The
  second half does not. The loop means to look up every upstream id and would raise the
  \<^verbatim>\<open>KeyError\<close> of a failed lookup, but the ids it walks through are those of the
  promoted node, whose upstream set is still empty, and not those the wire node
  declares. For the template with the nodes \<^verbatim>\<open>start-node\<close>, \<open>n1\<close> and \<^verbatim>\<open>end-node\<close>, in
  which \<open>n1\<close> declares the upstream id \<open>n0\<close> that no node has, and the task of the
  nodes supplied in \<^verbatim>\<open>tasks\<close>, promotion raises nothing: it returns a workflow whose
  only node is \<open>n1\<close>, without upstream node.
\<close>

theorem promote_accepts_dangling_upstream_id:
  "map m_id (t_nodes dangling_template) = [START_NODE_ID, ''n1'', END_NODE_ID]
   \<and> m_upstream_node_ids (t_nodes dangling_template ! 1) = [''n0'']
   \<and> fst (promote_from_model example_env lookup_task dangling_template None (Some add_tasks)
            compiling_state) = Inr (workflow_of_nodes [0])
   \<and> node_id (heap (snd (promote_from_model example_env lookup_task dangling_template
                            None (Some add_tasks) compiling_state)) 0) = Some ''n1''
   \<and> upstream_nodes (heap (snd (promote_from_model example_env lookup_task
                                   dangling_template None (Some add_tasks)
                                   compiling_state)) 0) = []"
  by (simp add: promote_from_model_def dangling_nodes alloc_def compiling_state_def
      SdkNode_promote_from_model_def upstream_node_ids_def SdkWorkflow_init_def
      lookup_task_def add_tasks_def add_wire_node_def workflow_of_nodes_def Let_def)
    (simp add: dangling_template_def template_of_nodes_def add_wire_node_def)
section \<open>Serializing a workflow and promoting it again\<close>

subsection \<open>What the wire form holds\<close>






subsection \<open>Workflows that do not come back\<close>



text \<open>
  More that the round trip does not keep. Two nodes with the same id become one entry
  of the node map, so one node comes back. A node without id, as an invocation makes
  it, comes back with the empty text as its id. When the executable of a node cannot be
  found, promotion fails. And no node comes back with an upstream node, also when the
  wire form names one that is in the template, because the wiring loop of
  \<^verbatim>\<open>promote_from_model\<close> looks nothing up.
\<close>

lemma round_trip_collapses_same_named_nodes:
  "fst (promote_from_model example_env lookup_task
          (template_of_nodes [add_wire_node ''n'' [] [], add_wire_node ''n'' [] []])
          None (Some add_tasks) local_state)
     = Inr (workflow_of_nodes [1])"
  by (simp add: workflow_of_nodes_def promote_from_model_def get_non_system_nodes_def
      template_of_nodes_def add_wire_node_def SdkWorkflow_init_def local_state_def alloc_def
      SdkNode_promote_from_model_def upstream_node_ids_def START_NODE_ID_def END_NODE_ID_def
      lookup_task_def add_tasks_def Let_def)

lemma round_trip_names_unnamed_node:
  "node_id (unnamed_heap 0) = None
   \<and> (\<exists>spec W' s'. serialize example_env unnamed_heap (workflow_of_nodes [0]) = Inr spec
          \<and> promote_from_model example_env lookup_task (wire_template spec) None
               (Some add_tasks) local_state = (Inr W', s')
          \<and> wf_nodes W' = [0] \<and> node_id (heap s' 0) = Some [])"
  by (simp add: unnamed_heap_def PythonTask_call_def compiling_state_def example_interfaces
      alloc_def SdkNode_def OutputParameterMapper_getitem_def serialize_def example_env_def
      eval_nat_numeral workflow_of_nodes_def to_flyte_idl_def template_to_model_def
      node_to_model_def upstream_node_ids_def id_text_def promote_from_model_def
      get_non_system_nodes_def SdkWorkflow_init_def local_state_def
      SdkNode_promote_from_model_def START_NODE_ID_def END_NODE_ID_def
      lookup_task_def add_tasks_def Let_def)

lemma round_trip_fails_without_executable:
  "fst (promote_from_model example_env lookup_task chain_wire_template None None local_state)
     = Inl (RemoteError ''task not found'')"
  by (simp add: promote_from_model_def get_non_system_nodes_def chain_wire_template_def
      template_of_nodes_def add_wire_node_def SdkNode_promote_from_model_def
      START_NODE_ID_def END_NODE_ID_def lookup_task_def Let_def)

lemma round_trip_leaves_upstream_nodes_out:
  "upstream_nodes (chain_heap 1) = [0]
   \<and> m_upstream_node_ids (t_nodes chain_wire_template ! 1) = [''n0'']
   \<and> fst (promote_from_model example_env lookup_task chain_wire_template None
            (Some add_tasks) local_state) = Inr (workflow_of_nodes [0, 1])
   \<and> upstream_nodes (heap (snd (promote_from_model example_env lookup_task
                                   chain_wire_template None (Some add_tasks) local_state)) 1)
       = []"
  by (simp add: chain_heap_def add_node_def SdkNode_def chain_wire_template_def
      workflow_of_nodes_def promote_from_model_def get_non_system_nodes_def
      template_of_nodes_def add_wire_node_def SdkWorkflow_init_def local_state_def alloc_def
      SdkNode_promote_from_model_def upstream_node_ids_def START_NODE_ID_def END_NODE_ID_def
      lookup_task_def add_tasks_def Let_def)

subsection \<open>The round trip\<close>



end
